theory Spec2Isabelle
  imports Complex_Main "HOL-Library.Log_Nat"
begin

section \<open>Conventions of the embedding\<close>

text \<open>
  The simulation core of TerraGenesis PC (\<^verbatim>\<open>src/core\<close>) is embedded function by function.
  Python numbers (ints and floats alike) are mathematical reals and their arithmetic is
  exact, except in \<^verbatim>\<open>calculate_habitability\<close>, whose value near the target depends on the
  rounding of IEEE doubles: there every operation is followed by the rounding \<open>fl\<close> of the
  section on double precision. Building counts are Python ints. A mutating method takes the
  object and returns the updated one; a method that can raise returns \<open>error + result\<close>.
  A dictionary is an association list in insertion order, as Python dictionaries are;
  a lookup finds the first entry of a key, and the dictionaries Python builds have each
  key once.
\<close>

datatype error = AttributeError | ZeroDivisionError | KeyError | IndexError

text \<open>Sequencing of calls that can raise: the first exception ends the computation.\<close>

definition and_then :: "error + 'a \<Rightarrow> ('a \<Rightarrow> error + 'b) \<Rightarrow> error + 'b" where
  "and_then r f = (case r of Inl e \<Rightarrow> Inl e | Inr x \<Rightarrow> f x)"

text \<open>
  The dictionary operations the core uses: \<^verbatim>\<open>d.get(k)\<close>, \<^verbatim>\<open>d.get(k, default)\<close>,
  \<^verbatim>\<open>d[k] = v\<close> (an existing key keeps its place, a new key goes last), \<^verbatim>\<open>del d[k]\<close>,
  \<^verbatim>\<open>list(d.keys())\<close> and \<^verbatim>\<open>d.values()\<close>.
\<close>

type_synonym ('k, 'v) odict = "('k \<times> 'v) list"

definition lookup :: "('k, 'v) odict \<Rightarrow> 'k \<Rightarrow> 'v option" where
  "lookup d k = map_of d k"

definition dict_get :: "('k, 'v) odict \<Rightarrow> 'k \<Rightarrow> 'v \<Rightarrow> 'v" where
  "dict_get d k dflt = (case lookup d k of None \<Rightarrow> dflt | Some v \<Rightarrow> v)"

fun store :: "'k \<Rightarrow> 'v \<Rightarrow> ('k, 'v) odict \<Rightarrow> ('k, 'v) odict" where
  "store k v [] = [(k, v)]"
| "store k v ((k', v') # d) = (if k' = k then (k, v) # d else (k', v') # store k v d)"

definition delete :: "'k \<Rightarrow> ('k, 'v) odict \<Rightarrow> ('k, 'v) odict" where
  "delete k d = filter (\<lambda>kv. fst kv \<noteq> k) d"

definition keys :: "('k, 'v) odict \<Rightarrow> 'k list" where
  "keys d = map fst d"

definition values_of :: "('k, 'v) odict \<Rightarrow> 'v list" where
  "values_of d = map snd d"

section \<open>ResourceManager (\<^verbatim>\<open>src/core/resources.py\<close>)\<close>

record resource_history =
  h_credits :: "real list"
  h_energy :: "real list"
  h_science :: "real list"

record resource_manager =
  credits :: real
  energy :: real
  science :: real
  credits_per_second :: real
  energy_per_second :: real
  science_per_second :: real
  energy_consumption :: real
  max_energy :: real
  max_science :: real
  res_history :: resource_history

text \<open>\<^verbatim>\<open>ResourceManager.can_afford\<close>: a missing entry of the cost is 0.\<close>

definition can_afford :: "resource_manager \<Rightarrow> (string, real) odict \<Rightarrow> bool" where
  "can_afford rm cost =
     (let credits_needed = dict_get cost ''credits'' 0;
          energy_needed = dict_get cost ''energy'' 0;
          science_needed = dict_get cost ''science'' 0
      in credits rm \<ge> credits_needed \<and> energy rm \<ge> energy_needed \<and> science rm \<ge> science_needed)"

text \<open>
  \<^verbatim>\<open>ResourceManager.spend_resources\<close>: the returned pair is the method's boolean result and
  the manager after the call. No statement of the method can raise on a cost whose values
  are numbers, so the model has no error branch.
\<close>

definition spend_resources :: "resource_manager \<Rightarrow> (string, real) odict \<Rightarrow> bool \<times> resource_manager" where
  "spend_resources rm cost =
     (if \<not> can_afford rm cost then (False, rm)
      else (True, rm\<lparr>credits := credits rm - dict_get cost ''credits'' 0,
                      energy := energy rm - dict_get cost ''energy'' 0,
                      science := science rm - dict_get cost ''science'' 0\<rparr>))"

text \<open>\<^verbatim>\<open>ResourceManager.add_resources\<close>: add, then clamp to the bounds.\<close>

definition add_resources :: "resource_manager \<Rightarrow> (string, real) odict \<Rightarrow> resource_manager" where
  "add_resources rm resources =
     (let c = credits rm + dict_get resources ''credits'' 0;
          e = energy rm + dict_get resources ''energy'' 0;
          s = science rm + dict_get resources ''science'' 0
      in rm\<lparr>credits := max 0 c,
             energy := max 0 (min (max_energy rm) e),
             science := max 0 (min (max_science rm) s)\<rparr>)"

text \<open>\<^verbatim>\<open>ResourceManager.__init__\<close> with the constants of \<^verbatim>\<open>config/constants.py\<close>.\<close>

definition INITIAL_CREDITS :: real where "INITIAL_CREDITS = 1000"
definition INITIAL_ENERGY :: real where "INITIAL_ENERGY = 100"
definition INITIAL_SCIENCE :: real where "INITIAL_SCIENCE = 0"

definition new_resource_manager :: resource_manager where
  "new_resource_manager =
     \<lparr>credits = INITIAL_CREDITS, energy = INITIAL_ENERGY, science = INITIAL_SCIENCE,
      credits_per_second = 0, energy_per_second = 0, science_per_second = 0,
      energy_consumption = 0, max_energy = 1000, max_science = 10000,
      res_history = \<lparr>h_credits = [INITIAL_CREDITS], h_energy = [INITIAL_ENERGY],
                     h_science = [INITIAL_SCIENCE]\<rparr>\<rparr>"

section \<open>Clock and random source\<close>

text \<open>
  \<^verbatim>\<open>time.time()\<close> and \<^verbatim>\<open>random.random()\<close> read the outside world. The world is a pair of
  arbitrary sequences, the readings of the clock and the draws of the generator, with the
  number of readings taken so far; each call returns the next element. Nothing is assumed
  of the sequences.
\<close>

record env =
  clock :: "nat \<Rightarrow> real"
  clock_reads :: nat
  rand :: "nat \<Rightarrow> real"
  rand_draws :: nat

definition time_time :: "env \<Rightarrow> real \<times> env" where
  "time_time w = (clock w (clock_reads w), w\<lparr>clock_reads := Suc (clock_reads w)\<rparr>)"

definition random_random :: "env \<Rightarrow> real \<times> env" where
  "random_random w = (rand w (rand_draws w), w\<lparr>rand_draws := Suc (rand_draws w)\<rparr>)"

section \<open>Events and planet: the data (\<^verbatim>\<open>src/core/events.py\<close>, \<^verbatim>\<open>src/core/planet.py\<close>)\<close>

text \<open>
  The requirements mapping of a template is read at seven fixed keys only; the record has
  one optional field per key, \<open>None\<close> for an absent key. Names, descriptions and the
  event type are only printed and are left out, as are the physical constants of a planet.
\<close>

record requirements =
  min_buildings :: "real option"
  planets :: "string list option"
  min_habitability :: "real option"
  min_science :: "real option"
  min_research_labs :: "real option"
  min_mining_facilities :: "real option"
  min_pressure :: "real option"

record game_event =
  event_id :: string
  probability :: real
  event_duration :: real
  effects :: "(string, real) odict"
  requirements :: requirements

record active_event =
  event :: game_event
  start_time :: real
  duration :: real
  effects_applied :: bool

record planet_history =
  h_temperature :: "real list"
  h_pressure :: "real list"
  h_oxygen :: "real list"
  h_habitability :: "real list"

record planet =
  name :: string
  temperature :: real
  pressure :: real
  oxygen :: real
  base_temperature :: real
  base_pressure :: real
  base_oxygen :: real
  temperature_modifier :: real
  pressure_modifier :: real
  oxygen_modifier :: real
  buildings :: "(string, int) odict"
  history :: planet_history
  active_events :: "active_event list"

text \<open>The entry of \<^verbatim>\<open>planets.json\<close> for one planet, at the keys the core reads.\<close>

record planet_data =
  initial_temperature :: "real option"
  initial_pressure :: "real option"
  initial_oxygen :: "real option"

text \<open>The dictionary written by \<^verbatim>\<open>Planet.to_dict\<close>; \<^verbatim>\<open>from_dict\<close> tolerates absent keys.\<close>

record planet_snapshot =
  s_name :: "string option"
  s_temperature :: "real option"
  s_pressure :: "real option"
  s_oxygen :: "real option"
  s_base_temperature :: "real option"
  s_base_pressure :: "real option"
  s_base_oxygen :: "real option"
  s_buildings :: "(string, int) odict option"
  s_history :: "planet_history option"

section \<open>Rounding to double precision\<close>

text \<open>
  A Python float is an IEEE binary64 number and every arithmetic operation returns the
  exact result rounded to the nearest such number, ties going to the even significand.
  \<open>fl x\<close> is that rounding: for \<open>2 powi e \<le> |x| < 2 powi (e + 1)\<close> the doubles around \<open>x\<close>
  are the multiples of \<open>2 powi (e - 52)\<close>, and \<open>fl x\<close> is the nearest one. \<open>expo x\<close> is the
  exponent \<open>e\<close>, read off the bit length of the integer part of \<open>|x|\<close> (of \<open>1 / |x|\<close>
  below 1), and \<open>round_even\<close> rounds to the nearest integer, a tie to the even one.

  The exponent is not bounded, so \<open>fl\<close> is binary64 rounding wherever the result is a
  normal number. On finite inputs no operation of \<^verbatim>\<open>calculate_habitability\<close> underflows (a
  difference from a target or from 1 is zero or at least \<open>2 powi (- 53)\<close>), and the only
  one that can overflow is a quotient \<open>diff / tolerance\<close> far beyond the tolerance, where
  the score is 0 with the infinite quotient as with the rounded one.
\<close>

definition round_even :: "real \<Rightarrow> int" where
  "round_even r =
     (let n = \<lfloor>r\<rfloor>; f = r - of_int n
      in if f < 1 / 2 then n else if 1 / 2 < f then n + 1 else if even n then n else n + 1)"

definition expo :: "real \<Rightarrow> int" where
  "expo x = (if 1 \<le> abs x then bitlen \<lfloor>abs x\<rfloor> - 1 else - bitlen (\<lceil>1 / abs x\<rceil> - 1))"

definition fl :: "real \<Rightarrow> real" where
  "fl x = (if x = 0 then 0
           else of_int (round_even (x / 2 powi (expo x - 52))) * 2 powi (expo x - 52))"

section \<open>Constants (\<^verbatim>\<open>src/config/constants.py\<close>)\<close>

definition MIN_TEMPERATURE :: real where "MIN_TEMPERATURE = -273.15"
definition MAX_TEMPERATURE :: real where "MAX_TEMPERATURE = 1000"
definition MIN_PRESSURE :: real where "MIN_PRESSURE = 0"
definition MAX_PRESSURE :: real where "MAX_PRESSURE = 10"
definition MIN_OXYGEN :: real where "MIN_OXYGEN = 0"
definition MAX_OXYGEN :: real where "MAX_OXYGEN = 100"

definition TARGET_TEMPERATURE :: real where "TARGET_TEMPERATURE = 15"
definition TARGET_PRESSURE :: real where "TARGET_PRESSURE = 1"
definition TARGET_OXYGEN :: real where "TARGET_OXYGEN = 21"

text \<open>The three entries of the dictionary \<^verbatim>\<open>HABITABILITY_TOLERANCE\<close>.\<close>

definition HABITABILITY_TOLERANCE_temperature :: real where
  "HABITABILITY_TOLERANCE_temperature = 20"
definition HABITABILITY_TOLERANCE_pressure :: real where
  "HABITABILITY_TOLERANCE_pressure = 0.3"
definition HABITABILITY_TOLERANCE_oxygen :: real where
  "HABITABILITY_TOLERANCE_oxygen = 5"

section \<open>Planet (\<^verbatim>\<open>src/core/planet.py\<close>)\<close>

text \<open>
  \<^verbatim>\<open>Planet.calculate_habitability\<close>, in double arithmetic: each subtraction, division,
  multiplication and addition of the source is followed by \<open>fl\<close>, in the order Python
  evaluates them, and a float literal (\<^verbatim>\<open>15.0\<close>, \<^verbatim>\<open>0.3\<close>, \<^verbatim>\<open>0.4\<close>) is the double nearest to
  it. The literals \<^verbatim>\<open>0\<close>, \<^verbatim>\<open>1\<close> and \<^verbatim>\<open>100\<close> are ints, which convert exactly; \<^verbatim>\<open>abs\<close>, \<^verbatim>\<open>max\<close>
  and \<^verbatim>\<open>min\<close> do not round.
\<close>

definition calculate_habitability :: "planet \<Rightarrow> real" where
  "calculate_habitability p =
     (let temp_diff = abs (fl (temperature p - fl TARGET_TEMPERATURE));
          pressure_diff = abs (fl (pressure p - fl TARGET_PRESSURE));
          oxygen_diff = abs (fl (oxygen p - fl TARGET_OXYGEN));
          temp_score = max 0 (fl (1 - fl (temp_diff / fl HABITABILITY_TOLERANCE_temperature)));
          pressure_score = max 0 (fl (1 - fl (pressure_diff / fl HABITABILITY_TOLERANCE_pressure)));
          oxygen_score = max 0 (fl (1 - fl (oxygen_diff / fl HABITABILITY_TOLERANCE_oxygen)));
          habitability = fl (fl (fl (fl (temp_score * fl 0.4) + fl (pressure_score * fl 0.3))
                                 + fl (oxygen_score * fl 0.3)) * 100)
      in min 100 (max 0 habitability))"

text \<open>\<^verbatim>\<open>Planet.__init__\<close>.\<close>

definition new_planet :: "string \<Rightarrow> planet_data \<Rightarrow> planet" where
  "new_planet nm pd =
     (let t = (case initial_temperature pd of None \<Rightarrow> 0 | Some v \<Rightarrow> v);
          pr = (case initial_pressure pd of None \<Rightarrow> 0 | Some v \<Rightarrow> v);
          ox = (case initial_oxygen pd of None \<Rightarrow> 0 | Some v \<Rightarrow> v);
          p = \<lparr>name = nm, temperature = t, pressure = pr, oxygen = ox,
               base_temperature = t, base_pressure = pr, base_oxygen = ox,
               temperature_modifier = 0, pressure_modifier = 0, oxygen_modifier = 0,
               buildings = [],
               history = \<lparr>h_temperature = [t], h_pressure = [pr], h_oxygen = [ox],
                          h_habitability = []\<rparr>,
               active_events = []\<rparr>
      in p\<lparr>history := (history p)\<lparr>h_habitability := [calculate_habitability p]\<rparr>\<rparr>)"

text \<open>
  \<^verbatim>\<open>Planet._update_modifiers\<close>: the three modifiers are reset and summed again over the
  buildings, in the order of the dictionary, from the fixed table of effects.
\<close>

definition building_effects :: "(string, (string, real) odict) odict" where
  "building_effects =
     [(''heater'', [(''temperature'', 5)]),
      (''cooler'', [(''temperature'', -5)]),
      (''atmosphere_processor'', [(''pressure'', 0.1)]),
      (''oxygen_generator'', [(''oxygen'', 2)]),
      (''greenhouse'', [(''temperature'', 2), (''oxygen'', 1)]),
      (''solar_panel'', []),
      (''research_lab'', [])]"

definition add_building_effect :: "string \<times> int \<Rightarrow> planet \<Rightarrow> planet" where
  "add_building_effect item p =
     (case lookup building_effects (fst item) of
        None \<Rightarrow> p
      | Some effs \<Rightarrow>
          p\<lparr>temperature_modifier :=
               temperature_modifier p + dict_get effs ''temperature'' 0 * of_int (snd item),
            pressure_modifier :=
               pressure_modifier p + dict_get effs ''pressure'' 0 * of_int (snd item),
            oxygen_modifier :=
               oxygen_modifier p + dict_get effs ''oxygen'' 0 * of_int (snd item)\<rparr>)"

definition update_modifiers :: "planet \<Rightarrow> planet" where
  "update_modifiers p =
     fold add_building_effect (buildings p)
       (p\<lparr>temperature_modifier := 0, pressure_modifier := 0, oxygen_modifier := 0\<rparr>)"

text \<open>\<^verbatim>\<open>Planet.add_building\<close> and \<^verbatim>\<open>Planet.remove_building\<close>.\<close>

definition add_building :: "planet \<Rightarrow> string \<Rightarrow> int \<Rightarrow> planet" where
  "add_building p building_type count =
     (let b0 = (if lookup (buildings p) building_type = None
                then store building_type 0 (buildings p) else buildings p);
          b1 = (case lookup b0 building_type of
                  None \<Rightarrow> b0
                | Some c \<Rightarrow> store building_type (c + count) b0)
      in update_modifiers (p\<lparr>buildings := b1\<rparr>))"

definition remove_building :: "planet \<Rightarrow> string \<Rightarrow> int \<Rightarrow> planet" where
  "remove_building p building_type count =
     (case lookup (buildings p) building_type of
        None \<Rightarrow> update_modifiers p
      | Some c \<Rightarrow>
          (let b1 = store building_type (max 0 (c - count)) (buildings p);
               b2 = (if lookup b1 building_type = Some 0 then delete building_type b1 else b1)
           in update_modifiers (p\<lparr>buildings := b2\<rparr>)))"

text \<open>\<^verbatim>\<open>Planet.apply_event\<close>, \<^verbatim>\<open>Planet.to_dict\<close> and \<^verbatim>\<open>Planet.from_dict\<close>.\<close>

definition apply_event :: "planet \<Rightarrow> active_event \<Rightarrow> planet" where
  "apply_event p ev = p\<lparr>active_events := active_events p @ [ev]\<rparr>"

definition planet_to_dict :: "planet \<Rightarrow> planet_snapshot" where
  "planet_to_dict p =
     \<lparr>s_name = Some (name p),
      s_temperature = Some (temperature p),
      s_pressure = Some (pressure p),
      s_oxygen = Some (oxygen p),
      s_base_temperature = Some (base_temperature p),
      s_base_pressure = Some (base_pressure p),
      s_base_oxygen = Some (base_oxygen p),
      s_buildings = Some (buildings p),
      s_history = Some (history p)\<rparr>"

definition planet_from_dict :: "planet_snapshot \<Rightarrow> planet_data \<Rightarrow> error + planet" where
  "planet_from_dict data pd =
     (case s_name data of
        None \<Rightarrow> Inl KeyError
      | Some nm \<Rightarrow>
          (let p0 = new_planet nm pd;
               p1 = p0\<lparr>temperature := (case s_temperature data of None \<Rightarrow> temperature p0 | Some v \<Rightarrow> v)\<rparr>;
               p2 = p1\<lparr>pressure := (case s_pressure data of None \<Rightarrow> pressure p1 | Some v \<Rightarrow> v)\<rparr>;
               p3 = p2\<lparr>oxygen := (case s_oxygen data of None \<Rightarrow> oxygen p2 | Some v \<Rightarrow> v)\<rparr>;
               p4 = p3\<lparr>buildings := (case s_buildings data of None \<Rightarrow> [] | Some b \<Rightarrow> b)\<rparr>;
               p5 = p4\<lparr>history := (case s_history data of None \<Rightarrow> history p4 | Some h \<Rightarrow> h)\<rparr>
           in Inr (update_modifiers p5)))"

section \<open>Active events (\<^verbatim>\<open>src/core/events.py\<close>)\<close>

text \<open>\<^verbatim>\<open>ActiveEvent.__init__\<close>: the start time is a reading of the clock.\<close>

definition new_active_event :: "env \<Rightarrow> game_event \<Rightarrow> active_event \<times> env" where
  "new_active_event w ev =
     (let (now, w1) = time_time w
      in (\<lparr>event = ev, start_time = now, duration = event_duration ev,
           effects_applied = False\<rparr>, w1))"

text \<open>
  \<^verbatim>\<open>ActiveEvent.is_expired\<close>: an instantaneous event (duration 0) is expired once its
  effects are applied, and the clock is not read; any other event reads the clock.
\<close>

definition is_expired :: "env \<Rightarrow> active_event \<Rightarrow> bool \<times> env" where
  "is_expired w ae =
     (if duration ae = 0 then (effects_applied ae, w)
      else (let (now, w1) = time_time w in (now - start_time ae \<ge> duration ae, w1)))"

text \<open>
  The second argument of \<^verbatim>\<open>ActiveEvent.apply_effects\<close> is named \<^verbatim>\<open>resource_manager\<close>, and
  Python does not check what it is given: \<^verbatim>\<open>EventManager.update\<close> passes the resource
  manager, \<^verbatim>\<open>Planet._update_events\<close> passes the float \<^verbatim>\<open>delta_time\<close>. A method call on a
  float raises \<^verbatim>\<open>AttributeError\<close>.
\<close>

datatype py_arg = ResourceManagerObj resource_manager | FloatObj real

definition obj_add_resources :: "py_arg \<Rightarrow> (string, real) odict \<Rightarrow> error + py_arg" where
  "obj_add_resources obj resources =
     (case obj of
        ResourceManagerObj rm \<Rightarrow> Inr (ResourceManagerObj (add_resources rm resources))
      | FloatObj x \<Rightarrow> Inl AttributeError)"

definition obj_spend_resources :: "py_arg \<Rightarrow> (string, real) odict \<Rightarrow> error + py_arg" where
  "obj_spend_resources obj cost =
     (case obj of
        ResourceManagerObj rm \<Rightarrow> Inr (ResourceManagerObj (snd (spend_resources rm cost)))
      | FloatObj x \<Rightarrow> Inl AttributeError)"

text \<open>
  \<^verbatim>\<open>if key in effects: body(effects[key])\<close>, the shape of every one-shot resource effect.
\<close>

definition when_in :: "(string, real) odict \<Rightarrow> string \<Rightarrow> (real \<Rightarrow> py_arg \<Rightarrow> error + py_arg)
    \<Rightarrow> py_arg \<Rightarrow> error + py_arg" where
  "when_in d k body obj = (case lookup d k of None \<Rightarrow> Inr obj | Some v \<Rightarrow> body v obj)"

definition one_shot_resources :: "(string, real) odict \<Rightarrow> py_arg \<Rightarrow> error + py_arg" where
  "one_shot_resources effs obj =
     and_then (when_in effs ''credits_bonus'' (\<lambda>v r. obj_add_resources r [(''credits'', v)]) obj) (\<lambda>r1.
     and_then (when_in effs ''credits_cost'' (\<lambda>v r. obj_spend_resources r [(''credits'', v)]) r1) (\<lambda>r2.
     and_then (when_in effs ''energy_bonus'' (\<lambda>v r. obj_add_resources r [(''energy'', v)]) r2) (\<lambda>r3.
     and_then (when_in effs ''energy_cost'' (\<lambda>v r. obj_spend_resources r [(''energy'', v)]) r3) (\<lambda>r4.
     when_in effs ''science_bonus'' (\<lambda>v r. obj_add_resources r [(''science'', v)]) r4))))"

text \<open>
  The damage loop: one draw for each building type of the snapshot \<^verbatim>\<open>list(keys())\<close>; a draw
  below the chance removes one building of the type.
\<close>

fun damage_buildings :: "real \<Rightarrow> string list \<Rightarrow> env \<Rightarrow> planet \<Rightarrow> env \<times> planet" where
  "damage_buildings damage_chance [] w p = (w, p)"
| "damage_buildings damage_chance (building_type # rest) w p =
     (let (x, w1) = random_random w
      in damage_buildings damage_chance rest w1
           (if x < damage_chance then remove_building p building_type 1 else p))"

text \<open>
  \<^verbatim>\<open>ActiveEvent.apply_effects\<close> has two blocks. The one-shot block runs while
  \<^verbatim>\<open>effects_applied\<close> is false and sets the flag last, so an exception in it leaves the
  flag false. The continuous block adds one thousandth of each configured modifier to the
  base values of the planet, for an event with a positive duration that is not expired.
  The result is the world, the event, the planet and the second argument after the call.
  The planet's own list of events is not read by this method.
\<close>

definition one_shot_effects :: "env \<Rightarrow> active_event \<Rightarrow> planet \<Rightarrow> py_arg
    \<Rightarrow> error + (env \<times> active_event \<times> planet \<times> py_arg)" where
  "one_shot_effects w ae p resource_manager =
     (if \<not> effects_applied ae then
        and_then (one_shot_resources (effects (event ae)) resource_manager) (\<lambda>r.
          let (w1, p1) =
                (case lookup (effects (event ae)) ''building_damage_chance'' of
                   None \<Rightarrow> (w, p)
                 | Some damage_chance \<Rightarrow> damage_buildings damage_chance (keys (buildings p)) w p)
          in Inr (w1, ae\<lparr>effects_applied := True\<rparr>, p1, r))
      else Inr (w, ae, p, resource_manager))"

definition continuous_effects :: "env \<Rightarrow> active_event \<Rightarrow> planet \<Rightarrow> env \<times> planet" where
  "continuous_effects w ae p =
     (if duration ae > 0 then
        (let (expired, w1) = is_expired w ae in
         if \<not> expired then
           (let temp_modifier = dict_get (effects (event ae)) ''temperature_modifier'' 0;
                pressure_modifier = dict_get (effects (event ae)) ''pressure_modifier'' 0;
                oxygen_modifier = dict_get (effects (event ae)) ''oxygen_modifier'' 0
            in (w1, p\<lparr>base_temperature := base_temperature p + temp_modifier * 0.001,
                       base_pressure := base_pressure p + pressure_modifier * 0.001,
                       base_oxygen := base_oxygen p + oxygen_modifier * 0.001\<rparr>))
         else (w1, p))
      else (w, p))"

definition apply_effects :: "env \<Rightarrow> active_event \<Rightarrow> planet \<Rightarrow> py_arg
    \<Rightarrow> error + (env \<times> active_event \<times> planet \<times> py_arg)" where
  "apply_effects w ae p resource_manager =
     and_then (one_shot_effects w ae p resource_manager) (\<lambda>(w1, ae1, p1, r1).
       let (w2, p2) = continuous_effects w1 ae1 p1 in Inr (w2, ae1, p2, r1))"

section \<open>Planet.update (\<^verbatim>\<open>src/core/planet.py\<close>)\<close>

text \<open>
  \<^verbatim>\<open>Planet._update_events\<close>. The list comprehension asks each event in turn whether it is
  expired and keeps the others; the loop then calls \<^verbatim>\<open>apply_effects(self, delta_time)\<close> on
  each kept event. The events are objects owned by the list, so the loop returns them as
  updated and the caller puts them back in place.
\<close>

fun prune_expired :: "env \<Rightarrow> active_event list \<Rightarrow> active_event list \<times> env" where
  "prune_expired w [] = ([], w)"
| "prune_expired w (ae # aes) =
     (let (expired, w1) = is_expired w ae;
          (kept, w2) = prune_expired w1 aes
      in (if \<not> expired then ae # kept else kept, w2))"

fun apply_each :: "env \<Rightarrow> real \<Rightarrow> active_event list \<Rightarrow> planet
    \<Rightarrow> error + (env \<times> active_event list \<times> planet)" where
  "apply_each w delta_time [] p = Inr (w, [], p)"
| "apply_each w delta_time (ae # aes) p =
     and_then (apply_effects w ae p (FloatObj delta_time)) (\<lambda>(w1, ae1, p1, r1).
     and_then (apply_each w1 delta_time aes p1) (\<lambda>(w2, aes2, p2).
     Inr (w2, ae1 # aes2, p2)))"

definition update_events :: "env \<Rightarrow> planet \<Rightarrow> real \<Rightarrow> error + (env \<times> planet)" where
  "update_events w p delta_time =
     (let (kept, w1) = prune_expired w (active_events p)
      in and_then (apply_each w1 delta_time kept (p\<lparr>active_events := kept\<rparr>)) (\<lambda>(w2, aes, p2).
         Inr (w2, p2\<lparr>active_events := aes\<rparr>)))"

text \<open>
  \<^verbatim>\<open>Planet.update\<close>. \<^verbatim>\<open>pop(0)\<close> raises \<^verbatim>\<open>IndexError\<close> on an empty list; the four history
  lists are popped in the order of the dictionary.
\<close>

definition pop0 :: "real list \<Rightarrow> error + real list" where
  "pop0 xs = (case xs of [] \<Rightarrow> Inl IndexError | x # rest \<Rightarrow> Inr rest)"

definition pop_history :: "planet_history \<Rightarrow> error + planet_history" where
  "pop_history h =
     and_then (pop0 (h_temperature h)) (\<lambda>t.
     and_then (pop0 (h_pressure h)) (\<lambda>pr.
     and_then (pop0 (h_oxygen h)) (\<lambda>ox.
     and_then (pop0 (h_habitability h)) (\<lambda>hb.
     Inr \<lparr>h_temperature = t, h_pressure = pr, h_oxygen = ox, h_habitability = hb\<rparr>))))"

definition update :: "env \<Rightarrow> planet \<Rightarrow> real \<Rightarrow> error + (env \<times> planet)" where
  "update w p delta_time =
     (let p1 = p\<lparr>temperature := base_temperature p + temperature_modifier p,
                 pressure := base_pressure p + pressure_modifier p,
                 oxygen := base_oxygen p + oxygen_modifier p\<rparr>;
          p2 = p1\<lparr>temperature := max MIN_TEMPERATURE (min MAX_TEMPERATURE (temperature p1)),
                  pressure := max MIN_PRESSURE (min MAX_PRESSURE (pressure p1)),
                  oxygen := max MIN_OXYGEN (min MAX_OXYGEN (oxygen p1))\<rparr>
      in and_then (if length (h_temperature (history p2)) \<ge> 100 then pop_history (history p2)
                   else Inr (history p2)) (\<lambda>h.
           update_events w
             (p2\<lparr>history := \<lparr>h_temperature = h_temperature h @ [temperature p2],
                              h_pressure = h_pressure h @ [pressure p2],
                              h_oxygen = h_oxygen h @ [oxygen p2],
                              h_habitability = h_habitability h @ [calculate_habitability p2]\<rparr>\<rparr>)
             delta_time))"

section \<open>ResourceManager snapshots (\<^verbatim>\<open>src/core/resources.py\<close>)\<close>

text \<open>The dictionary of \<^verbatim>\<open>ResourceManager.to_dict\<close>; \<^verbatim>\<open>from_dict\<close> defaults absent keys.\<close>

record resources_snapshot =
  rs_credits :: "real option"
  rs_energy :: "real option"
  rs_science :: "real option"
  rs_max_energy :: "real option"
  rs_max_science :: "real option"
  rs_history :: "resource_history option"

definition resources_to_dict :: "resource_manager \<Rightarrow> resources_snapshot" where
  "resources_to_dict rm =
     \<lparr>rs_credits = Some (credits rm), rs_energy = Some (energy rm),
      rs_science = Some (science rm), rs_max_energy = Some (max_energy rm),
      rs_max_science = Some (max_science rm), rs_history = Some (res_history rm)\<rparr>"

definition resources_from_dict :: "resources_snapshot \<Rightarrow> resource_manager" where
  "resources_from_dict data =
     (let manager = new_resource_manager
      in manager\<lparr>credits := (case rs_credits data of None \<Rightarrow> INITIAL_CREDITS | Some v \<Rightarrow> v),
                  energy := (case rs_energy data of None \<Rightarrow> INITIAL_ENERGY | Some v \<Rightarrow> v),
                  science := (case rs_science data of None \<Rightarrow> INITIAL_SCIENCE | Some v \<Rightarrow> v),
                  max_energy := (case rs_max_energy data of None \<Rightarrow> 1000 | Some v \<Rightarrow> v),
                  max_science := (case rs_max_science data of None \<Rightarrow> 10000 | Some v \<Rightarrow> v),
                  res_history := (case rs_history data of None \<Rightarrow> res_history manager
                                  | Some h \<Rightarrow> h)\<rparr>)"

section \<open>Technology tree (\<^verbatim>\<open>src/core/technology.py\<close>)\<close>

text \<open>
  One entry of \<^verbatim>\<open>technologies.json\<close> at the keys the core reads, and the \<^verbatim>\<open>Technology\<close>
  object built from it. Python sets (\<^verbatim>\<open>prerequisites\<close>, \<^verbatim>\<open>researched_technologies\<close>) are
  sets; \<open>tech_progress\<close> is the field \<^verbatim>\<open>research_progress\<close> of a technology.
\<close>

record tech_data =
  td_cost :: "(string, real) odict option"
  td_prerequisites :: "string list option"
  td_unlocks :: "string list option"

record technology =
  tech_id :: string
  cost :: "(string, real) odict"
  prerequisites :: "string set"
  unlocks :: "string list"
  is_researched :: bool
  is_available :: bool
  tech_progress :: real

record technology_tree =
  technologies :: "(string, technology) odict"
  researched_technologies :: "string set"
  current_research :: "string option"
  research_progress :: real

definition new_technology :: "string \<Rightarrow> tech_data \<Rightarrow> technology" where
  "new_technology tid data =
     (let prereqs = set (case td_prerequisites data of None \<Rightarrow> [] | Some l \<Rightarrow> l)
      in \<lparr>tech_id = tid,
          cost = (case td_cost data of None \<Rightarrow> [] | Some c \<Rightarrow> c),
          prerequisites = prereqs,
          unlocks = (case td_unlocks data of None \<Rightarrow> [] | Some l \<Rightarrow> l),
          is_researched = False,
          is_available = (prereqs = {}),
          tech_progress = 0\<rparr>)"

text \<open>
  \<^verbatim>\<open>d[k].field = v\<close>: the object stored under a key is changed in place; nothing happens
  here when the key is absent (the callers test the key first or raise).
\<close>

fun modify :: "'k \<Rightarrow> ('v \<Rightarrow> 'v) \<Rightarrow> ('k, 'v) odict \<Rightarrow> ('k, 'v) odict" where
  "modify k f [] = []"
| "modify k f ((k', v) # d) = (if k' = k then (k', f v) # d else (k', v) # modify k f d)"

text \<open>\<^verbatim>\<open>TechnologyTree._update_availability\<close>.\<close>

definition update_availability :: "technology_tree \<Rightarrow> technology_tree" where
  "update_availability tr =
     tr\<lparr>technologies :=
          map (\<lambda>(k, tech). (k, if \<not> is_researched tech
                                 then tech\<lparr>is_available :=
                                        prerequisites tech \<subseteq> researched_technologies tr\<rparr>
                                 else tech))
              (technologies tr)\<rparr>"

text \<open>
  \<^verbatim>\<open>TechnologyTree.__init__\<close> with \<^verbatim>\<open>load_technologies\<close>. The argument is the content of the
  technology file as \<^verbatim>\<open>json.load\<close> returns it, or the empty dictionary when the file cannot
  be read (the exceptions are caught and only printed).
\<close>

definition new_technology_tree :: "(string, tech_data) odict \<Rightarrow> technology_tree" where
  "new_technology_tree tech_file =
     update_availability
       \<lparr>technologies = fold (\<lambda>(tid, data) ts. store tid (new_technology tid data) ts) tech_file [],
        researched_technologies = {},
        current_research = None,
        research_progress = 0\<rparr>"

text \<open>
  \<^verbatim>\<open>if self.current_research:\<close> is false for \<^verbatim>\<open>None\<close> and for the empty string.
\<close>

definition truthy :: "string option \<Rightarrow> bool" where
  "truthy s = (case s of None \<Rightarrow> False | Some x \<Rightarrow> x \<noteq> [])"

text \<open>\<^verbatim>\<open>TechnologyTree.start_research\<close>; the subscript of an unknown current research raises.\<close>

definition start_research :: "technology_tree \<Rightarrow> string \<Rightarrow> error + (bool \<times> technology_tree)" where
  "start_research tr tid =
     (case lookup (technologies tr) tid of
        None \<Rightarrow> Inr (False, tr)
      | Some tech \<Rightarrow>
          if \<not> is_available tech \<or> is_researched tech then Inr (False, tr)
          else
            and_then
              (if truthy (current_research tr) then
                 (case lookup (technologies tr) (the (current_research tr)) of
                    None \<Rightarrow> Inl KeyError
                  | Some cur \<Rightarrow>
                      Inr (modify (the (current_research tr)) (\<lambda>t. t\<lparr>tech_progress := 0\<rparr>)
                             (technologies tr)))
               else Inr (technologies tr))
              (\<lambda>ts. Inr (True, tr\<lparr>technologies := modify tid (\<lambda>t. t\<lparr>tech_progress := 0\<rparr>) ts,
                                  current_research := Some tid,
                                  research_progress := 0\<rparr>)))"

text \<open>\<^verbatim>\<open>TechnologyTree.complete_research\<close>.\<close>

definition complete_research :: "technology_tree \<Rightarrow> string \<Rightarrow> technology_tree" where
  "complete_research tr tid =
     (case lookup (technologies tr) tid of
        None \<Rightarrow> tr
      | Some tech \<Rightarrow>
          (let tr1 = tr\<lparr>technologies :=
                          modify tid (\<lambda>t. t\<lparr>is_researched := True, tech_progress := 100\<rparr>)
                            (technologies tr),
                        researched_technologies := insert tid (researched_technologies tr)\<rparr>;
               tr2 = (if current_research tr1 = Some tid
                      then tr1\<lparr>current_research := None, research_progress := 0\<rparr> else tr1)
           in update_availability tr2))"

text \<open>
  \<^verbatim>\<open>TechnologyTree.update_research\<close>. Python raises \<^verbatim>\<open>ZeroDivisionError\<close> when the divisor of
  \<^verbatim>\<open>/\<close> is zero, for ints and floats alike, and \<^verbatim>\<open>KeyError\<close> at the subscript of an unknown
  key.
\<close>

definition update_research :: "technology_tree \<Rightarrow> real \<Rightarrow> real \<Rightarrow> error + technology_tree" where
  "update_research tr science_points delta_time =
     (if \<not> truthy (current_research tr) then Inr tr
      else
        (case lookup (technologies tr) (the (current_research tr)) of
           None \<Rightarrow> Inl KeyError
         | Some tech \<Rightarrow>
             (let science_cost = dict_get (cost tech) ''science'' 100
              in if science_cost = 0 then Inl ZeroDivisionError
                 else
                   (let progress_per_second = science_points / science_cost * 100;
                        progress_increase = progress_per_second * delta_time;
                        new_progress = tech_progress tech + progress_increase;
                        tr1 = tr\<lparr>technologies :=
                                   modify (the (current_research tr))
                                     (\<lambda>t. t\<lparr>tech_progress := new_progress\<rparr>) (technologies tr),
                                 research_progress := new_progress\<rparr>
                    in if new_progress \<ge> 100
                       then Inr (complete_research tr1 (the (current_research tr)))
                       else Inr tr1))))"

text \<open>
  \<^verbatim>\<open>get_researched_technologies\<close>, \<^verbatim>\<open>get_unlocked_buildings\<close> and \<^verbatim>\<open>is_building_unlocked\<close>.
  \<^verbatim>\<open>list(set(unlocked))\<close> removes the duplicates; its order is not specified by Python and
  only membership in it is used.
\<close>

definition get_researched_technologies :: "technology_tree \<Rightarrow> technology list" where
  "get_researched_technologies tr = filter is_researched (values_of (technologies tr))"

definition get_unlocked_buildings :: "technology_tree \<Rightarrow> string list" where
  "get_unlocked_buildings tr = remdups (concat (map unlocks (get_researched_technologies tr)))"

definition is_building_unlocked :: "technology_tree \<Rightarrow> string \<Rightarrow> bool" where
  "is_building_unlocked tr building_type = (building_type \<in> set (get_unlocked_buildings tr))"

text \<open>
  \<^verbatim>\<open>TechnologyTree.to_dict\<close> and \<^verbatim>\<open>from_dict\<close>. The snapshot lists the researched set
  (\<^verbatim>\<open>list(set)\<close>) and \<^verbatim>\<open>from_dict\<close> turns the list into a set again; the order of that list is
  not observable, so the snapshot holds the set. \<^verbatim>\<open>from_dict\<close> builds a fresh tree, which
  reads the technology file again. Its loop over the researched set marks every known
  technology of the set, whatever the order.
\<close>

record tree_snapshot =
  ts_researched_technologies :: "string set option"
  ts_current_research :: "string option"
  ts_research_progress :: "real option"
  ts_technology_progress :: "(string, real) odict option"

definition tree_to_dict :: "technology_tree \<Rightarrow> tree_snapshot" where
  "tree_to_dict tr =
     \<lparr>ts_researched_technologies = Some (researched_technologies tr),
      ts_current_research = current_research tr,
      ts_research_progress = Some (research_progress tr),
      ts_technology_progress =
        Some (map (\<lambda>(tid, tech). (tid, tech_progress tech)) (technologies tr))\<rparr>"

definition restore_progress :: "string \<times> real \<Rightarrow> (string, technology) odict
    \<Rightarrow> (string, technology) odict" where
  "restore_progress item ts =
     (if lookup ts (fst item) \<noteq> None
      then modify (fst item) (\<lambda>t. t\<lparr>tech_progress := snd item\<rparr>) ts else ts)"

definition tree_from_dict :: "(string, tech_data) odict \<Rightarrow> tree_snapshot \<Rightarrow> technology_tree" where
  "tree_from_dict tech_file data =
     (let tree = new_technology_tree tech_file;
          researched = (case ts_researched_technologies data of None \<Rightarrow> {} | Some s \<Rightarrow> s);
          ts1 = map (\<lambda>(tid, tech). (tid, if tid \<in> researched then tech\<lparr>is_researched := True\<rparr>
                                          else tech))
                    (technologies tree);
          tech_progress_items = (case ts_technology_progress data of None \<Rightarrow> [] | Some d \<Rightarrow> d);
          ts2 = fold restore_progress tech_progress_items ts1
      in update_availability
           (tree\<lparr>technologies := ts2,
                 researched_technologies := researched,
                 current_research := ts_current_research data,
                 research_progress := (case ts_research_progress data of None \<Rightarrow> 0
                                       | Some v \<Rightarrow> v)\<rparr>))"

section \<open>Event manager (\<^verbatim>\<open>src/core/events.py\<close>)\<close>

record event_manager =
  event_templates :: "(string, game_event) odict"
  last_event_check :: real
  event_check_interval :: real

text \<open>\<^verbatim>\<open>EventManager._check_event_requirements\<close>: every key present must pass, in this order.\<close>

definition check_event_requirements :: "game_event \<Rightarrow> planet \<Rightarrow> resource_manager \<Rightarrow> bool" where
  "check_event_requirements ev p rm =
     (let req = requirements ev in
      if (case min_buildings req of None \<Rightarrow> False
          | Some v \<Rightarrow> of_int (sum_list (values_of (buildings p))) < v) then False
      else if (case planets req of None \<Rightarrow> False | Some names \<Rightarrow> name p \<notin> set names) then False
      else if (case min_habitability req of None \<Rightarrow> False
               | Some v \<Rightarrow> calculate_habitability p < v) then False
      else if (case min_science req of None \<Rightarrow> False | Some v \<Rightarrow> science rm < v) then False
      else if (case min_research_labs req of None \<Rightarrow> False
               | Some v \<Rightarrow> of_int (dict_get (buildings p) ''research_lab'' 0) < v) then False
      else if (case min_mining_facilities req of None \<Rightarrow> False
               | Some v \<Rightarrow> of_int (dict_get (buildings p) ''mining_facility'' 0) < v) then False
      else if (case min_pressure req of None \<Rightarrow> False | Some v \<Rightarrow> pressure p < v) then False
      else True)"

text \<open>\<^verbatim>\<open>EventManager.trigger_event\<close>: the result, the world and the planet after the call.\<close>

definition trigger_event :: "event_manager \<Rightarrow> string \<Rightarrow> env \<Rightarrow> planet \<Rightarrow> bool \<times> env \<times> planet" where
  "trigger_event em eid w p =
     (case lookup (event_templates em) eid of
        None \<Rightarrow> (False, w, p)
      | Some event_template \<Rightarrow>
          (let (active_event, w1) = new_active_event w event_template
           in (True, w1, p\<lparr>active_events := active_events p @ [active_event]\<rparr>)))"

text \<open>
  \<^verbatim>\<open>EventManager._check_for_new_events\<close>: the loop over the templates. One number is drawn
  for each template; the template is skipped when the draw is above its probability, when
  a requirement fails, or when an event of the same id is on the planet already.
\<close>

fun check_templates :: "event_manager \<Rightarrow> game_event list \<Rightarrow> env \<Rightarrow> planet \<Rightarrow> resource_manager
    \<Rightarrow> env \<times> planet" where
  "check_templates em [] w p rm = (w, p)"
| "check_templates em (event_template # rest) w p rm =
     (let (x, w1) = random_random w in
      if x > probability event_template then check_templates em rest w1 p rm
      else if \<not> check_event_requirements event_template p rm then check_templates em rest w1 p rm
      else if list_ex (\<lambda>ae. event_id (event ae) = event_id event_template) (active_events p)
        then check_templates em rest w1 p rm
      else (let (ok, w2, p2) = trigger_event em (event_id event_template) w1 p
            in check_templates em rest w2 p2 rm))"

definition check_for_new_events :: "event_manager \<Rightarrow> env \<Rightarrow> planet \<Rightarrow> resource_manager
    \<Rightarrow> env \<times> planet" where
  "check_for_new_events em w p rm = check_templates em (values_of (event_templates em)) w p rm"

text \<open>
  \<^verbatim>\<open>EventManager.update\<close>. The loop runs over a copy of the list: an expired event is removed
  from the planet's list, any other has its effects applied with the resource manager as
  second argument. The events kept are returned in order, as updated.
\<close>

definition as_manager :: "py_arg \<Rightarrow> error + resource_manager" where
  "as_manager obj = (case obj of ResourceManagerObj rm \<Rightarrow> Inr rm | FloatObj x \<Rightarrow> Inl AttributeError)"

fun update_active :: "env \<Rightarrow> active_event list \<Rightarrow> planet \<Rightarrow> resource_manager
    \<Rightarrow> error + (env \<times> active_event list \<times> planet \<times> resource_manager)" where
  "update_active w [] p rm = Inr (w, [], p, rm)"
| "update_active w (active_event # rest) p rm =
     (let (expired, w1) = is_expired w active_event in
      if expired then update_active w1 rest p rm
      else
        and_then (apply_effects w1 active_event p (ResourceManagerObj rm)) (\<lambda>(w2, ae2, p2, r2).
        and_then (as_manager r2) (\<lambda>rm2.
        and_then (update_active w2 rest p2 rm2) (\<lambda>(w3, kept, p3, rm3).
        Inr (w3, ae2 # kept, p3, rm3)))))"

definition event_manager_update :: "event_manager \<Rightarrow> env \<Rightarrow> planet \<Rightarrow> resource_manager \<Rightarrow> real
    \<Rightarrow> error + (env \<times> event_manager \<times> planet \<times> resource_manager)" where
  "event_manager_update em w p rm delta_time =
     (let (current_time, w0) = time_time w;
          (w1, p1, em1) =
            (if current_time - last_event_check em \<ge> event_check_interval em
             then (let (w', p') = check_for_new_events em w0 p rm
                   in (w', p', em\<lparr>last_event_check := current_time\<rparr>))
             else (w0, p, em))
      in and_then (update_active w1 (active_events p1) p1 rm) (\<lambda>(w2, kept, p2, rm2).
         Inr (w2, em1, p2\<lparr>active_events := kept\<rparr>, rm2)))"

section \<open>Game engine (\<^verbatim>\<open>src/core/game_engine.py\<close>)\<close>

text \<open>
  The engine state that \<^verbatim>\<open>build_structure\<close> reads and writes; \<open>buildings_built\<close> is the
  counter \<^verbatim>\<open>game_stats['buildings_built']\<close>.
\<close>

record game_engine =
  current_planet :: "planet option"
  resource_manager :: resource_manager
  technology_tree :: technology_tree
  buildings_built :: int

definition building_costs :: "(string, (string, real) odict) odict" where
  "building_costs =
     [(''solar_panel'', [(''credits'', 100), (''energy'', 10)]),
      (''heater'', [(''credits'', 150), (''energy'', 20)]),
      (''cooler'', [(''credits'', 150), (''energy'', 20)]),
      (''atmosphere_processor'', [(''credits'', 300), (''energy'', 50)]),
      (''oxygen_generator'', [(''credits'', 200), (''energy'', 30)]),
      (''greenhouse'', [(''credits'', 250), (''energy'', 25)]),
      (''research_lab'', [(''credits'', 400), (''energy'', 40)]),
      (''mining_facility'', [(''credits'', 350), (''energy'', 35)])]"

text \<open>\<^verbatim>\<open>GameEngine.build_structure\<close>: the boolean result and the engine after the call.\<close>

definition build_structure :: "game_engine \<Rightarrow> string \<Rightarrow> int \<Rightarrow> bool \<times> game_engine" where
  "build_structure eng building_type count =
     (case current_planet eng of
        None \<Rightarrow> (False, eng)
      | Some p \<Rightarrow>
          if \<not> is_building_unlocked (technology_tree eng) building_type then (False, eng)
          else
            (case lookup building_costs building_type of
               None \<Rightarrow> (False, eng)
             | Some base_cost \<Rightarrow>
                 (let total_cost = map (\<lambda>(resource, c). (resource, c * of_int count)) base_cost;
                      (ok, rm1) = spend_resources (resource_manager eng) total_cost
                  in if \<not> ok then (False, eng)
                     else (True, eng\<lparr>current_planet := Some (add_building p building_type count),
                                     resource_manager := rm1,
                                     buildings_built := buildings_built eng + count\<rparr>))))"

section \<open>Auxiliary notions for the statements\<close>

text \<open>
  One axis of the habitability score, as \<^verbatim>\<open>calculate_habitability\<close> computes it from a
  rounded deviation and a tolerance, and the weighted sum of three scores before the final
  clamp.
\<close>

definition score :: "real \<Rightarrow> real \<Rightarrow> real" where
  "score dev tol = max 0 (fl (1 - fl (dev / tol)))"

definition weighted :: "real \<Rightarrow> real \<Rightarrow> real \<Rightarrow> real" where
  "weighted ts ps os =
     fl (fl (fl (fl (ts * fl 0.4) + fl (ps * fl 0.3)) + fl (os * fl 0.3)) * 100)"

text \<open>
  What the continuous block of one \<^verbatim>\<open>apply_effects\<close> call adds to the base value that the
  effect key \<open>key\<close> drives, when the call's reading of the clock is the \<open>n\<close>-th one:
  one thousandth of the modifier for an event of positive duration that is not expired at
  that reading, and nothing otherwise. \<open>continuous_total\<close> sums it over the events of a
  loop; only an event of positive duration takes a reading.
\<close>

definition continuous_step :: "(nat \<Rightarrow> real) \<Rightarrow> nat \<Rightarrow> string \<Rightarrow> active_event \<Rightarrow> real" where
  "continuous_step clk n key ae =
     (if duration ae > 0 \<and> \<not> (clk n - start_time ae \<ge> duration ae)
      then dict_get (effects (event ae)) key 0 * 0.001 else 0)"

fun continuous_total :: "(nat \<Rightarrow> real) \<Rightarrow> nat \<Rightarrow> string \<Rightarrow> active_event list \<Rightarrow> real" where
  "continuous_total clk n key [] = 0"
| "continuous_total clk n key (ae # aes) =
     continuous_step clk n key ae
       + continuous_total clk (if duration ae > 0 then Suc n else n) key aes"

text \<open>The outcome of \<^verbatim>\<open>apply_effects\<close> without its second argument.\<close>

definition forget_arg :: "error + (env \<times> active_event \<times> planet \<times> py_arg)
    \<Rightarrow> error + (env \<times> active_event \<times> planet)" where
  "forget_arg r = (case r of Inl e \<Rightarrow> Inl e | Inr (w, ae, p, x) \<Rightarrow> Inr (w, ae, p))"

text \<open>Three planets built by \<^verbatim>\<open>Planet.__init__\<close>, used as concrete inputs.\<close>

definition earth_like :: planet where
  "earth_like = new_planet ''Terra''
     \<lparr>initial_temperature = Some 15, initial_pressure = Some 1, initial_oxygen = Some 21\<rparr>"

definition warm_world :: planet where
  "warm_world = new_planet ''Calida''
     \<lparr>initial_temperature = Some 25, initial_pressure = Some 1, initial_oxygen = Some 21\<rparr>"

definition mars_like :: planet where
  "mars_like = new_planet ''Mars''
     \<lparr>initial_temperature = Some (-63), initial_pressure = Some 0.006, initial_oxygen = Some 0.13\<rparr>"

text \<open>
  A planet one unit in the last place above the target temperature: \<open>15 + 1 / 2 ^ 49\<close> is
  the double that follows 15.
\<close>

definition barely_warm :: planet where
  "barely_warm = new_planet ''Tepida''
     \<lparr>initial_temperature = Some (15 + 1 / 2 ^ 49), initial_pressure = Some 1,
      initial_oxygen = Some 21\<rparr>"

text \<open>A world, an event and planets used as concrete inputs.\<close>

definition no_requirements :: requirements where
  "no_requirements = \<lparr>min_buildings = None, planets = None, min_habitability = None,
     min_science = None, min_research_labs = None, min_mining_facilities = None,
     min_pressure = None\<rparr>"

definition still_world :: env where
  "still_world = \<lparr>clock = (\<lambda>n. 5), clock_reads = 0, rand = (\<lambda>n. 1 / 2), rand_draws = 0\<rparr>"

definition heat_wave :: game_event where
  "heat_wave = \<lparr>event_id = ''heat_wave'', probability = 0.1, event_duration = 120,
     effects = [(''temperature_modifier'', 10)], requirements = no_requirements\<rparr>"

definition heat_wave_active :: active_event where
  "heat_wave_active = \<lparr>event = heat_wave, start_time = 0, duration = 120, effects_applied = True\<rparr>"

definition planet_in_heat_wave :: planet where
  "planet_in_heat_wave = apply_event earth_like heat_wave_active"

definition hot_planet :: planet where
  "hot_planet = add_building planet_in_heat_wave ''heater'' 300"

text \<open>
  \<^verbatim>\<open>apply_effects\<close> called \<open>n\<close> times in a row on the same event, planet and resource
  manager, as successive ticks do while the event stays in the list.
\<close>

fun apply_effects_times :: "nat \<Rightarrow> env \<Rightarrow> active_event \<Rightarrow> planet \<Rightarrow> py_arg
    \<Rightarrow> error + (env \<times> active_event \<times> planet \<times> py_arg)" where
  "apply_effects_times 0 w ae p r = Inr (w, ae, p, r)"
| "apply_effects_times (Suc n) w ae p r =
     and_then (apply_effects w ae p r) (\<lambda>(w1, ae1, p1, r1). apply_effects_times n w1 ae1 p1 r1)"

text \<open>An instantaneous event that grants 50 credits.\<close>

definition windfall :: game_event where
  "windfall = \<lparr>event_id = ''windfall'', probability = 0.05, event_duration = 0,
     effects = [(''credits_bonus'', 50)], requirements = no_requirements\<rparr>"

definition windfall_active :: active_event where
  "windfall_active = \<lparr>event = windfall, start_time = 5, duration = 0, effects_applied = False\<rparr>"

text \<open>The research progress of every technology of a tree, by id.\<close>

definition progress_table :: "(string, technology) odict \<Rightarrow> (string, real) odict" where
  "progress_table ts = map (\<lambda>(tid, tech). (tid, tech_progress tech)) ts"

text \<open>
  A technology file and two trees reached from it: \<open>free_energy_tree\<close> by starting the
  research of the technology whose science cost is 0, \<open>solar_power_tree\<close> by starting the
  research of \<open>solar_power\<close> and one \<^verbatim>\<open>update_research(2, 10)\<close>.
\<close>

definition sample_tech_file :: "(string, tech_data) odict" where
  "sample_tech_file =
     [(''solar_power'', \<lparr>td_cost = Some [(''science'', 100)], td_prerequisites = None,
                          td_unlocks = Some [''solar_panel'']\<rparr>),
      (''free_energy'', \<lparr>td_cost = Some [(''science'', 0)], td_prerequisites = None,
                          td_unlocks = None\<rparr>),
      (''fusion'', \<lparr>td_cost = None, td_prerequisites = Some [''solar_power''],
                     td_unlocks = Some [''heater'']\<rparr>)]"

definition free_energy_tree :: technology_tree where
  "free_energy_tree =
     (new_technology_tree sample_tech_file)
       \<lparr>technologies := modify ''free_energy'' (\<lambda>t. t\<lparr>tech_progress := 0\<rparr>)
                          (technologies (new_technology_tree sample_tech_file)),
        current_research := Some ''free_energy'',
        research_progress := 0\<rparr>"

definition solar_power_tree :: technology_tree where
  "solar_power_tree =
     (new_technology_tree sample_tech_file)
       \<lparr>technologies := modify ''solar_power'' (\<lambda>t. t\<lparr>tech_progress := 20\<rparr>)
                          (technologies (new_technology_tree sample_tech_file)),
        current_research := Some ''solar_power'',
        research_progress := 20\<rparr>"

text \<open>
  An engine on an Earth-like planet whose energy stock is at its cap of 1000 and whose
  tree has researched \<open>solar_power\<close>, which unlocks the solar panel.
\<close>

definition solar_researched_tree :: technology_tree where
  "solar_researched_tree = complete_research (new_technology_tree sample_tech_file) ''solar_power''"

definition full_energy_engine :: game_engine where
  "full_energy_engine =
     \<lparr>current_planet = Some earth_like,
      resource_manager = new_resource_manager\<lparr>energy := 1000\<rparr>,
      technology_tree = solar_researched_tree,
      buildings_built = 0\<rparr>"

text \<open>
  An event manager with two templates, one of which requires a pressure of at least 0.5;
  a world whose random draws are all 0, so that every probability roll succeeds; and a
  planet whose pressure is 0.2.
\<close>

definition dust_storm :: game_event where
  "dust_storm = \<lparr>event_id = ''dust_storm'', probability = 0.3, event_duration = 60,
     effects = [(''temperature_modifier'', - 5)],
     requirements = no_requirements\<lparr>min_pressure := Some 0.5\<rparr>\<rparr>"

definition sample_event_manager :: event_manager where
  "sample_event_manager =
     \<lparr>event_templates = [(''windfall'', windfall), (''dust_storm'', dust_storm)],
      last_event_check = 0, event_check_interval = 60\<rparr>"

definition lucky_world :: env where
  "lucky_world = \<lparr>clock = (\<lambda>n. 5), clock_reads = 0, rand = (\<lambda>n. 0), rand_draws = 0\<rparr>"

definition thin_air_planet :: planet where
  "thin_air_planet = new_planet ''Mars''
     \<lparr>initial_temperature = Some (-63), initial_pressure = Some 0.2, initial_oxygen = Some 0.13\<rparr>"

text \<open>The template ids of the active events of a list.\<close>

definition ids_on :: "active_event list \<Rightarrow> string set" where
  "ids_on aes = set (map (\<lambda>ae. event_id (event ae)) aes)"

text \<open>
  The pruning of \<^verbatim>\<open>_update_events\<close>, said without the comprehension of the code. The
  comprehension asks \<^verbatim>\<open>is_expired()\<close> of the events in order, and each event of non-zero
  duration reads the clock once: \<open>timed_before aes i\<close> counts the readings taken before the
  event at index \<open>i\<close> is asked, \<open>expired_when_pruned w aes i\<close> is the answer that event gives
  at its own reading, and \<open>remaining_events w aes\<close> are the events that answered no, in
  their order.
\<close>

definition timed_before :: "active_event list \<Rightarrow> nat \<Rightarrow> nat" where
  "timed_before aes i = length (filter (\<lambda>ae. duration ae \<noteq> 0) (take i aes))"

definition expired_when_pruned :: "env \<Rightarrow> active_event list \<Rightarrow> nat \<Rightarrow> bool" where
  "expired_when_pruned w aes i =
     fst (is_expired (w\<lparr>clock_reads := clock_reads w + timed_before aes i\<rparr>) (aes ! i))"

definition remaining_events :: "env \<Rightarrow> active_event list \<Rightarrow> active_event list" where
  "remaining_events w aes =
     map (\<lambda>i. aes ! i) (filter (\<lambda>i. \<not> expired_when_pruned w aes i) [0..<length aes])"

text \<open>
  A planet that carries three events: a dust storm of duration 60 begun at time -100 and
  a windfall of duration 0, both expired at time 5, and the heat wave, which is not.
\<close>

definition old_dust_storm :: active_event where
  "old_dust_storm = \<lparr>event = dust_storm, start_time = - 100, duration = 60, effects_applied = True\<rparr>"

definition windfall_done :: active_event where
  "windfall_done = \<lparr>event = windfall, start_time = 4, duration = 0, effects_applied = True\<rparr>"

definition planet_after_storm :: planet where
  "planet_after_storm =
     apply_event (apply_event (apply_event earth_like old_dust_storm) windfall_done) heat_wave_active"

section \<open>Properties of the resource ledger\<close>

text \<open>
  Claim C3. \<^verbatim>\<open>spend_resources(cost)\<close> is atomic. When every required amount (a missing
  entry counting as 0) is at most the stock, the call returns true and the three stocks are
  reduced by the named amounts in one step, every other field unchanged. When the call
  returns false the manager is the one before the call, so credits, energy and science
  kept their values. The function is total: there is no raising branch.
\<close>

theorem spend_resources_atomic:
  "(dict_get price ''credits'' 0 \<le> credits rm \<and> dict_get price ''energy'' 0 \<le> energy rm
      \<and> dict_get price ''science'' 0 \<le> science rm
    \<longrightarrow> spend_resources rm price =
          (True, rm\<lparr>credits := credits rm - dict_get price ''credits'' 0,
                    energy := energy rm - dict_get price ''energy'' 0,
                    science := science rm - dict_get price ''science'' 0\<rparr>))
   \<and> (fst (spend_resources rm price) = False
    \<longrightarrow> snd (spend_resources rm price) = rm
        \<and> credits (snd (spend_resources rm price)) = credits rm
        \<and> energy (snd (spend_resources rm price)) = energy rm
        \<and> science (snd (spend_resources rm price)) = science rm)"
  by (simp add: spend_resources_def can_afford_def)

theorem spend_resources_atomic_witness:
  "spend_resources new_resource_manager [(''credits'', 100), (''energy'', 10)] =
     (True, new_resource_manager\<lparr>credits := 900, energy := 90, science := 0\<rparr>)
   \<and> fst (spend_resources new_resource_manager [(''credits'', 2000)]) = False
   \<and> credits (snd (spend_resources new_resource_manager [(''credits'', 2000)])) = 1000
   \<and> energy (snd (spend_resources new_resource_manager [(''credits'', 2000)])) = 100
   \<and> science (snd (spend_resources new_resource_manager [(''credits'', 2000)])) = 0"
proof -
  have afford: "dict_get [(''credits'', 100), (''energy'', 10)] ''credits'' 0 \<le> credits new_resource_manager
      \<and> dict_get [(''credits'', 100), (''energy'', 10)] ''energy'' 0 \<le> energy new_resource_manager
      \<and> dict_get [(''credits'', 100), (''energy'', 10)] ''science'' 0 \<le> science new_resource_manager"
    by (simp add: dict_get_def lookup_def new_resource_manager_def INITIAL_CREDITS_def INITIAL_ENERGY_def
        INITIAL_SCIENCE_def)
  have refused: "fst (spend_resources new_resource_manager [(''credits'', 2000)]) = False"
    by (simp add: spend_resources_def can_afford_def dict_get_def lookup_def new_resource_manager_def
        INITIAL_CREDITS_def INITIAL_ENERGY_def INITIAL_SCIENCE_def)
  from spend_resources_atomic [of "[(''credits'', 100), (''energy'', 10)]" new_resource_manager]
    spend_resources_atomic [of "[(''credits'', 2000)]" new_resource_manager] afford refused
  show ?thesis
    by (simp add: dict_get_def lookup_def new_resource_manager_def INITIAL_CREDITS_def INITIAL_ENERGY_def
        INITIAL_SCIENCE_def)
qed

section \<open>Properties of the rounding\<close>

text \<open>
  \<open>expo x\<close> is the exponent of the binade of \<open>x\<close>; \<open>fl\<close> is odd and monotone, keeps 0 and
  the sign, and is evaluated at a number whose binade is known by rounding its quotient by
  the spacing.
\<close>

lemma round_even_of_int: "round_even (of_int n) = n"
  by (simp add: round_even_def)

lemma round_even_floor: "\<lfloor>r\<rfloor> \<le> round_even r" "round_even r \<le> \<lfloor>r\<rfloor> + 1"
  by (simp_all add: round_even_def Let_def)

lemma round_even_mono:
  assumes "r \<le> s"
  shows "round_even r \<le> round_even s"
proof (cases "\<lfloor>r\<rfloor> = \<lfloor>s\<rfloor>")
  case True
  then show ?thesis using assms by (simp add: round_even_def Let_def)
next
  case False
  with floor_mono [OF assms] have "\<lfloor>r\<rfloor> < \<lfloor>s\<rfloor>" by linarith
  then show ?thesis using round_even_floor(2) [of r] round_even_floor(1) [of s] by linarith
qed

lemma round_even_minus: "round_even (- r) = - round_even r"
proof (cases "r = of_int \<lfloor>r\<rfloor>")
  case True
  then obtain n where "r = of_int n" by blast
  then have "- r = of_int (- n)" by simp
  then show ?thesis using \<open>r = of_int n\<close> by (simp only: round_even_of_int)
next
  case False
  then have lt: "of_int \<lfloor>r\<rfloor> < r" using of_int_floor_le [of r] by linarith
  have h: "r < of_int \<lfloor>r\<rfloor> + 1" by linarith
  have "\<lfloor>- r\<rfloor> = - \<lfloor>r\<rfloor> - 1"
  proof (rule floor_unique)
    have "- of_int \<lfloor>r\<rfloor> - 1 \<le> - r" using h by linarith
    then show "of_int (- \<lfloor>r\<rfloor> - 1) \<le> - r" by simp
    show "- r < of_int (- \<lfloor>r\<rfloor> - 1) + 1" using lt by simp
  qed
  then show ?thesis using lt by (simp add: round_even_def Let_def)
qed

lemma expo_bounds:
  assumes "x \<noteq> 0"
  shows "2 powi expo x \<le> abs x" "abs x < 2 powi (expo x + 1)"
proof -
  have "2 powi expo x \<le> abs x \<and> abs x < 2 powi (expo x + 1)"
  proof (cases "1 \<le> abs x")
    case True
    define n where "n = \<lfloor>abs x\<rfloor>"
    have n: "1 \<le> n" "of_int n \<le> abs x" "abs x < of_int n + 1"
      using True by (simp_all add: n_def)
    then have b: "(2::int) ^ nat (bitlen n - 1) \<le> n" "n < 2 ^ nat (bitlen n)"
      using bitlen_bounds [of n] by simp_all
    have b1: "1 \<le> bitlen n" using n(1) bitlen_eq_zero_iff [of n] bitlen_nonneg [of n] by linarith
    have e: "expo x = bitlen n - 1" using True by (simp add: expo_def n_def)
    have p1: "(2::real) powi (bitlen n - 1) = 2 ^ nat (bitlen n - 1)"
      using b1 by (simp add: power_int_def)
    have p2: "(2::real) powi (bitlen n - 1 + 1) = 2 ^ nat (bitlen n)"
      using b1 by (simp add: power_int_def)
    have "(2::real) ^ nat (bitlen n - 1) \<le> of_int n"
      using b(1) by (metis of_int_le_iff of_int_numeral of_int_power)
    moreover have "of_int n + 1 \<le> (2::real) ^ nat (bitlen n)"
    proof -
      from b(2) have "n + 1 \<le> 2 ^ nat (bitlen n)" by simp
      then have "(of_int (n + 1) :: real) \<le> of_int (2 ^ nat (bitlen n))" by (simp only: of_int_le_iff)
      then show ?thesis by simp
    qed
    ultimately show ?thesis using n unfolding e p1 p2 by linarith
  next
    case False
    define y where "y = 1 / abs x"
    have y: "1 < y" "0 < abs x" "abs x = 1 / y" using False assms by (simp_all add: y_def)
    define n where "n = \<lceil>y\<rceil> - 1"
    have n: "1 \<le> n" "of_int n < y" "y \<le> of_int n + 1"
      using y(1) by (simp_all add: n_def) linarith+
    then have b: "(2::int) ^ nat (bitlen n - 1) \<le> n" "n < 2 ^ nat (bitlen n)"
      using bitlen_bounds [of n] by simp_all
    have b1: "1 \<le> bitlen n" using n(1) bitlen_eq_zero_iff [of n] bitlen_nonneg [of n] by linarith
    have e: "expo x = - bitlen n" using False by (simp add: expo_def n_def y_def)
    have p1: "(2::real) powi (- bitlen n) = 1 / 2 ^ nat (bitlen n)"
      using b1 by (simp add: power_int_def field_simps)
    have p2: "(2::real) powi (- bitlen n + 1) = 1 / 2 ^ nat (bitlen n - 1)"
      using b1 by (simp add: power_int_def field_simps nat_diff_distrib')
    have lo: "(2::real) ^ nat (bitlen n - 1) < y"
    proof -
      have "(2::real) ^ nat (bitlen n - 1) \<le> of_int n"
        using b(1) by (metis of_int_le_iff of_int_numeral of_int_power)
      then show ?thesis using n(2) by linarith
    qed
    have hi: "y \<le> (2::real) ^ nat (bitlen n)"
    proof -
      from b(2) have "n + 1 \<le> 2 ^ nat (bitlen n)" by simp
      then have "(of_int (n + 1) :: real) \<le> of_int (2 ^ nat (bitlen n))" by (simp only: of_int_le_iff)
      then show ?thesis using n(3) by simp
    qed
    have "1 / 2 ^ nat (bitlen n) \<le> 1 / y" using hi y(1) by (simp add: frac_le)
    moreover have "1 / y < 1 / 2 ^ nat (bitlen n - 1)" using lo by (simp add: frac_less2)
    ultimately show ?thesis unfolding e p1 p2 y(3) by simp
  qed
  then show "2 powi expo x \<le> abs x" "abs x < 2 powi (expo x + 1)" by simp_all
qed

lemma expo_unique:
  assumes "2 powi e \<le> abs x" "abs x < 2 powi (e + 1)"
  shows "expo x = e"
proof -
  have "0 < (2::real) powi e" by simp
  with assms(1) have "0 < abs x" by linarith
  then have x: "x \<noteq> 0" by simp
  note b = expo_bounds [OF x]
  have "\<not> expo x < e"
  proof
    assume "expo x < e"
    then have "(2::real) powi (expo x + 1) \<le> 2 powi e" by (intro power_int_increasing) simp_all
    with b(2) assms(1) show False by linarith
  qed
  moreover have "\<not> e < expo x"
  proof
    assume "e < expo x"
    then have "(2::real) powi (e + 1) \<le> 2 powi expo x" by (intro power_int_increasing) simp_all
    with b(1) assms(2) show False by linarith
  qed
  ultimately show ?thesis by linarith
qed

lemma fl_at:
  assumes "2 powi e \<le> abs x" "abs x < 2 powi (e + 1)"
  shows "fl x = of_int (round_even (x / 2 powi (e - 52))) * 2 powi (e - 52)"
proof -
  have "0 < (2::real) powi e" by simp
  with assms(1) have "0 < abs x" by linarith
  then have x: "x \<noteq> 0" by simp
  show ?thesis using x by (simp add: fl_def expo_unique [OF assms])
qed

lemma expo_minus: "expo (- x) = expo x"
  by (simp add: expo_def)

lemma fl_minus: "fl (- x) = - fl x"
  by (simp add: fl_def expo_minus round_even_minus)

lemma fl_0: "fl 0 = 0"
  by (simp add: fl_def)

lemma fl_range:
  assumes "0 < x"
  shows "2 powi expo x \<le> fl x" "fl x \<le> 2 powi (expo x + 1)"
proof -
  define q where "q = (2::real) powi (expo x - 52)"
  have q: "0 < q" by (simp add: q_def)
  have P: "(2::real) powi expo x = 2 ^ 52 * q" "(2::real) powi (expo x + 1) = 2 ^ 53 * q"
    by (simp_all add: q_def power_int_diff power_int_add)
  have b: "2 ^ 52 * q \<le> x" "x < 2 ^ 53 * q"
    using expo_bounds [of x] assms unfolding P by simp_all
  have "of_int (2 ^ 52) \<le> x / q" using b(1) q by (simp add: field_simps)
  from round_even_mono [OF this] have lo: "2 ^ 52 \<le> round_even (x / q)"
    by (simp only: round_even_of_int)
  have "x / q \<le> of_int (2 ^ 53)" using b(2) q by (simp add: field_simps)
  from round_even_mono [OF this] have hi: "round_even (x / q) \<le> 2 ^ 53"
    by (simp only: round_even_of_int)
  have f: "fl x = of_int (round_even (x / q)) * q" using assms by (simp add: fl_def q_def)
  have "(2::real) ^ 52 \<le> of_int (round_even (x / q))"
    using lo by (metis of_int_le_iff of_int_numeral of_int_power)
  then have "2 ^ 52 * q \<le> of_int (round_even (x / q)) * q" using q by simp
  then show "2 powi expo x \<le> fl x" unfolding P f .
  have "of_int (round_even (x / q)) \<le> (2::real) ^ 53"
    using hi by (metis of_int_le_iff of_int_numeral of_int_power)
  then have "of_int (round_even (x / q)) * q \<le> 2 ^ 53 * q" using q by simp
  then show "fl x \<le> 2 powi (expo x + 1)" unfolding P f .
qed

lemma fl_pos:
  assumes "0 < x"
  shows "0 < fl x"
proof -
  have "(0::real) < 2 powi expo x" by simp
  with fl_range(1) [OF assms] show ?thesis by linarith
qed

lemma fl_mono_pos:
  assumes "0 < x" "x \<le> y"
  shows "fl x \<le> fl y"
proof -
  have y: "0 < y" using assms by linarith
  have xn: "x \<noteq> 0" "y \<noteq> 0" using assms by auto
  have "\<not> expo y < expo x"
  proof
    assume "expo y < expo x"
    then have "(2::real) powi (expo y + 1) \<le> 2 powi expo x" by (intro power_int_increasing) simp_all
    with expo_bounds(1) [OF xn(1)] expo_bounds(2) [OF xn(2)] assms y show False by simp
  qed
  then consider "expo x = expo y" | "expo x < expo y" by linarith
  then show ?thesis
  proof cases
    case 1
    have "x / 2 powi (expo y - 52) \<le> y / 2 powi (expo y - 52)"
      using assms(2) by (simp add: divide_right_mono)
    from round_even_mono [OF this] show ?thesis
      using xn by (simp add: fl_def 1)
  next
    case 2
    then have "(2::real) powi (expo x + 1) \<le> 2 powi expo y" by (intro power_int_increasing) simp_all
    with fl_range(2) [OF assms(1)] fl_range(1) [OF y] show ?thesis by linarith
  qed
qed

lemma fl_mono:
  assumes "x \<le> y"
  shows "fl x \<le> fl y"
proof -
  consider "0 < x" | "x = 0" "y = 0" | "x = 0" "0 < y" | "x < 0" "0 < y" | "x < 0" "y = 0"
    | "x < 0" "y < 0"
    using assms by linarith
  then show ?thesis
  proof cases
    case 1 then show ?thesis using assms by (rule fl_mono_pos)
  next
    case 2 then show ?thesis by simp
  next
    case 3 then show ?thesis using fl_pos [of y] by (simp add: fl_0)
  next
    case 4
    then show ?thesis using fl_pos [of y] fl_pos [of "- x"] by (simp add: fl_minus)
  next
    case 5
    then show ?thesis using fl_pos [of "- x"] by (simp add: fl_minus fl_0)
  next
    case 6
    then have "fl (- y) \<le> fl (- x)" using assms by (intro fl_mono_pos) simp_all
    then show ?thesis by (simp add: fl_minus)
  qed
qed

lemma fl_abs: "fl (abs x) = abs (fl x)"
proof (cases "0 \<le> x")
  case True
  then have "0 \<le> fl x" using fl_mono [of 0 x] by (simp add: fl_0)
  then show ?thesis using True by simp
next
  case False
  then have "fl x \<le> 0" using fl_mono [of x 0] by (simp add: fl_0)
  then show ?thesis using False by (simp add: fl_minus abs_if)
qed

lemma fl_scaled:
  assumes "2 ^ 52 \<le> abs x * 2 ^ k" "abs x * 2 ^ k < 2 ^ 53"
  shows "fl x = of_int (round_even (x * 2 ^ k)) / 2 ^ k"
proof -
  have q: "(2::real) powi (52 - int k - 52) = 1 / 2 ^ k"
    by (simp add: power_int_minus_divide)
  have P: "(2::real) powi (52 - int k) = 2 ^ 52 / 2 ^ k"
    "(2::real) powi (52 - int k + 1) = 2 ^ 53 / 2 ^ k"
    by (simp_all add: power_int_diff power_int_add)
  have "2 powi (52 - int k) \<le> abs x" "abs x < 2 powi (52 - int k + 1)"
    using assms unfolding P by (simp_all add: field_simps)
  from fl_at [OF this] show ?thesis unfolding q by simp
qed

lemma round_even_near:
  assumes "abs (r - of_int m) < 1 / 2"
  shows "round_even r = m"
proof -
  consider "of_int m \<le> r" | "r < of_int m" by linarith
  then show ?thesis
  proof cases
    case 1
    then have "\<lfloor>r\<rfloor> = m" using assms by (intro floor_unique) linarith+
    then show ?thesis using assms 1 by (simp add: round_even_def Let_def)
  next
    case 2
    then have "\<lfloor>r\<rfloor> = m - 1" using assms by (intro floor_unique) simp_all
    then show ?thesis using assms 2 by (simp add: round_even_def Let_def)
  qed
qed

lemma round_even_tie:
  assumes "abs (r - of_int m) = 1 / 2" "even m"
  shows "round_even r = m"
proof -
  consider "r = of_int m + 1 / 2" | "r = of_int m - 1 / 2" using assms(1) by (auto simp: abs_if split: if_splits)
  then show ?thesis
  proof cases
    case 1
    then have "\<lfloor>r\<rfloor> = m" by (intro floor_unique) simp_all
    then show ?thesis using assms(2) 1 by (simp add: round_even_def Let_def)
  next
    case 2
    then have "\<lfloor>r\<rfloor> = m - 1" by (intro floor_unique) simp_all
    then show ?thesis using assms(2) 2 by (simp add: round_even_def Let_def)
  qed
qed

lemma fl_near:
  assumes "2 ^ 52 \<le> x * 2 ^ k" "x * 2 ^ k < 2 ^ 53" "abs (x * 2 ^ k - of_int m) < 1 / 2"
  shows "fl x = of_int m / 2 ^ k"
proof -
  have "(0::real) < 2 ^ 52" by simp
  with assms(1) have "0 < x * 2 ^ k" by linarith
  then have "0 < x" by (simp add: zero_less_mult_iff)
  then have a: "abs x = x" by simp
  show ?thesis using fl_scaled [of x k] assms(1,2) round_even_near [OF assms(3)] by (simp add: a)
qed

lemma fl_tie:
  assumes "2 ^ 52 \<le> x * 2 ^ k" "x * 2 ^ k < 2 ^ 53" "abs (x * 2 ^ k - of_int m) = 1 / 2" "even m"
  shows "fl x = of_int m / 2 ^ k"
proof -
  have "(0::real) < 2 ^ 52" by simp
  with assms(1) have "0 < x * 2 ^ k" by linarith
  then have "0 < x" by (simp add: zero_less_mult_iff)
  then have a: "abs x = x" by simp
  show ?thesis using fl_scaled [of x k] assms(1,2) round_even_tie [OF assms(3,4)] by (simp add: a)
qed

section \<open>Properties of the habitability score\<close>

text \<open>The doubles of the literals, and the scores and sums the statements evaluate.\<close>

lemma fl_15: "fl 15 = 15"
proof -
  have h1: "fl 15 = 8444249301319680 / 2 ^ 49"
    using fl_near [of "15" 49 8444249301319680] by simp
  then show ?thesis by simp
qed

lemma fl_1: "fl 1 = 1"
proof -
  have h1: "fl 1 = 4503599627370496 / 2 ^ 52"
    using fl_near [of "1" 52 4503599627370496] by simp
  then show ?thesis by simp
qed

lemma fl_21: "fl 21 = 21"
proof -
  have h1: "fl 21 = 5910974510923776 / 2 ^ 48"
    using fl_near [of "21" 48 5910974510923776] by simp
  then show ?thesis by simp
qed

lemma fl_20: "fl 20 = 20"
proof -
  have h1: "fl 20 = 5629499534213120 / 2 ^ 48"
    using fl_near [of "20" 48 5629499534213120] by simp
  then show ?thesis by simp
qed

lemma fl_5: "fl 5 = 5"
proof -
  have h1: "fl 5 = 5629499534213120 / 2 ^ 50"
    using fl_near [of "5" 50 5629499534213120] by simp
  then show ?thesis by simp
qed

lemma fl_03: "fl 0.3 = 5404319552844595 / 2 ^ 54"
  using fl_near [of "0.3" 54 5404319552844595] by simp

lemma fl_04: "fl 0.4 = 7205759403792794 / 2 ^ 54"
  using fl_near [of "0.4" 54 7205759403792794] by simp

lemma fl_dev49: "fl (1 / 2 ^ 49) = 4503599627370496 / 2 ^ 101"
  using fl_near [of "(1 / 2 ^ 49)" 101 4503599627370496] by simp

lemma fl_dev40: "fl (1 / 2 ^ 40) = 4503599627370496 / 2 ^ 92"
  using fl_near [of "(1 / 2 ^ 40)" 92 4503599627370496] by simp

lemma score_dev49: "score (1 / 2 ^ 49) 20 = 9007199254740991 / 2 ^ 53"
proof -
  have h1: "fl ((1 / 2 ^ 49) / 20) = 7205759403792794 / 2 ^ 106"
    using fl_near [of "((1 / 2 ^ 49) / 20)" 106 7205759403792794] by simp
  have h2: "fl (1 - (7205759403792794 / 2 ^ 106)) = 9007199254740991 / 2 ^ 53"
    using fl_near [of "(1 - (7205759403792794 / 2 ^ 106))" 53 9007199254740991] by simp
  show ?thesis unfolding score_def h1 h2 by simp
qed

lemma score_T: "score (1 / 2 ^ 40) 20 = 9007199254740582 / 2 ^ 53"
proof -
  have h1: "fl ((1 / 2 ^ 40) / 20) = 7205759403792794 / 2 ^ 97"
    using fl_near [of "((1 / 2 ^ 40) / 20)" 97 7205759403792794] by simp
  have h2: "fl (1 - (7205759403792794 / 2 ^ 97)) = 9007199254740582 / 2 ^ 53"
    using fl_near [of "(1 - (7205759403792794 / 2 ^ 97))" 53 9007199254740582] by simp
  show ?thesis unfolding score_def h1 h2 by simp
qed

lemma score_P: "score (1 / 2 ^ 40) (5404319552844595 / 2 ^ 54) = 9007199254713685 / 2 ^ 53"
proof -
  have h1: "fl ((1 / 2 ^ 40) / (5404319552844595 / 2 ^ 54)) = 7505999378950827 / 2 ^ 91"
    using fl_near [of "((1 / 2 ^ 40) / (5404319552844595 / 2 ^ 54))" 91 7505999378950827] by simp
  have h2: "fl (1 - (7505999378950827 / 2 ^ 91)) = 9007199254713685 / 2 ^ 53"
    using fl_near [of "(1 - (7505999378950827 / 2 ^ 91))" 53 9007199254713685] by simp
  show ?thesis unfolding score_def h1 h2 by simp
qed

lemma score_O: "score (1 / 2 ^ 40) 5 = 9007199254739354 / 2 ^ 53"
proof -
  have h1: "fl ((1 / 2 ^ 40) / 5) = 7205759403792794 / 2 ^ 95"
    using fl_near [of "((1 / 2 ^ 40) / 5)" 95 7205759403792794] by simp
  have h2: "fl (1 - (7205759403792794 / 2 ^ 95)) = 9007199254739354 / 2 ^ 53"
    using fl_near [of "(1 - (7205759403792794 / 2 ^ 95))" 53 9007199254739354] by simp
  show ?thesis unfolding score_def h1 h2 by simp
qed

lemma weighted_target: "weighted 1 1 1 = 100"
proof -
  have h1: "fl (1 * (7205759403792794 / 2 ^ 54)) = 7205759403792794 / 2 ^ 54"
    using fl_near [of "(1 * (7205759403792794 / 2 ^ 54))" 54 7205759403792794] by simp
  have h2: "fl (1 * (5404319552844595 / 2 ^ 54)) = 5404319552844595 / 2 ^ 54"
    using fl_near [of "(1 * (5404319552844595 / 2 ^ 54))" 54 5404319552844595] by simp
  have h3: "fl ((7205759403792794 / 2 ^ 54) + (5404319552844595 / 2 ^ 54)) = 6305039478318694 / 2 ^ 53"
    using fl_tie [of "((7205759403792794 / 2 ^ 54) + (5404319552844595 / 2 ^ 54))" 53 6305039478318694] by simp
  have h4: "fl (1 * (5404319552844595 / 2 ^ 54)) = 5404319552844595 / 2 ^ 54"
    using fl_near [of "(1 * (5404319552844595 / 2 ^ 54))" 54 5404319552844595] by simp
  have h5: "fl ((6305039478318694 / 2 ^ 53) + (5404319552844595 / 2 ^ 54)) = 9007199254740992 / 2 ^ 53"
    using fl_tie [of "((6305039478318694 / 2 ^ 53) + (5404319552844595 / 2 ^ 54))" 53 9007199254740992] by simp
  have h6: "fl ((9007199254740992 / 2 ^ 53) * 100) = 7036874417766400 / 2 ^ 46"
    using fl_near [of "((9007199254740992 / 2 ^ 53) * 100)" 46 7036874417766400] by simp
  show ?thesis unfolding weighted_def fl_03 fl_04 h1 h2 h3 h4 h5 h6 by simp
qed

lemma weighted_dev49: "weighted (9007199254740991 / 2 ^ 53) 1 1 = 100"
proof -
  have h1: "fl ((9007199254740991 / 2 ^ 53) * (7205759403792794 / 2 ^ 54)) = 7205759403792793 / 2 ^ 54"
    using fl_near [of "((9007199254740991 / 2 ^ 53) * (7205759403792794 / 2 ^ 54))" 54 7205759403792793] by simp
  have h2: "fl (1 * (5404319552844595 / 2 ^ 54)) = 5404319552844595 / 2 ^ 54"
    using fl_near [of "(1 * (5404319552844595 / 2 ^ 54))" 54 5404319552844595] by simp
  have h3: "fl ((7205759403792793 / 2 ^ 54) + (5404319552844595 / 2 ^ 54)) = 6305039478318694 / 2 ^ 53"
    using fl_near [of "((7205759403792793 / 2 ^ 54) + (5404319552844595 / 2 ^ 54))" 53 6305039478318694] by simp
  have h4: "fl (1 * (5404319552844595 / 2 ^ 54)) = 5404319552844595 / 2 ^ 54"
    using fl_near [of "(1 * (5404319552844595 / 2 ^ 54))" 54 5404319552844595] by simp
  have h5: "fl ((6305039478318694 / 2 ^ 53) + (5404319552844595 / 2 ^ 54)) = 9007199254740992 / 2 ^ 53"
    using fl_tie [of "((6305039478318694 / 2 ^ 53) + (5404319552844595 / 2 ^ 54))" 53 9007199254740992] by simp
  have h6: "fl ((9007199254740992 / 2 ^ 53) * 100) = 7036874417766400 / 2 ^ 46"
    using fl_near [of "((9007199254740992 / 2 ^ 53) * 100)" 46 7036874417766400] by simp
  show ?thesis unfolding weighted_def fl_03 fl_04 h1 h2 h3 h4 h5 h6 by simp
qed

lemma weighted_T: "weighted (9007199254740582 / 2 ^ 53) 1 1 < 100"
proof -
  have h1: "fl ((9007199254740582 / 2 ^ 53) * (7205759403792794 / 2 ^ 54)) = 7205759403792466 / 2 ^ 54"
    using fl_near [of "((9007199254740582 / 2 ^ 53) * (7205759403792794 / 2 ^ 54))" 54 7205759403792466] by simp
  have h2: "fl (1 * (5404319552844595 / 2 ^ 54)) = 5404319552844595 / 2 ^ 54"
    using fl_near [of "(1 * (5404319552844595 / 2 ^ 54))" 54 5404319552844595] by simp
  have h3: "fl ((7205759403792466 / 2 ^ 54) + (5404319552844595 / 2 ^ 54)) = 6305039478318530 / 2 ^ 53"
    using fl_tie [of "((7205759403792466 / 2 ^ 54) + (5404319552844595 / 2 ^ 54))" 53 6305039478318530] by simp
  have h4: "fl (1 * (5404319552844595 / 2 ^ 54)) = 5404319552844595 / 2 ^ 54"
    using fl_near [of "(1 * (5404319552844595 / 2 ^ 54))" 54 5404319552844595] by simp
  have h5: "fl ((6305039478318530 / 2 ^ 53) + (5404319552844595 / 2 ^ 54)) = 9007199254740828 / 2 ^ 53"
    using fl_tie [of "((6305039478318530 / 2 ^ 53) + (5404319552844595 / 2 ^ 54))" 53 9007199254740828] by simp
  have h6: "fl ((9007199254740828 / 2 ^ 53) * 100) = 7036874417766272 / 2 ^ 46"
    using fl_near [of "((9007199254740828 / 2 ^ 53) * 100)" 46 7036874417766272] by simp
  show ?thesis unfolding weighted_def fl_03 fl_04 h1 h2 h3 h4 h5 h6 by simp
qed

lemma weighted_P: "weighted 1 (9007199254713685 / 2 ^ 53) 1 < 100"
proof -
  have h1: "fl (1 * (7205759403792794 / 2 ^ 54)) = 7205759403792794 / 2 ^ 54"
    using fl_near [of "(1 * (7205759403792794 / 2 ^ 54))" 54 7205759403792794] by simp
  have h2: "fl ((9007199254713685 / 2 ^ 53) * (5404319552844595 / 2 ^ 54)) = 5404319552828211 / 2 ^ 54"
    using fl_near [of "((9007199254713685 / 2 ^ 53) * (5404319552844595 / 2 ^ 54))" 54 5404319552828211] by simp
  have h3: "fl ((7205759403792794 / 2 ^ 54) + (5404319552828211 / 2 ^ 54)) = 6305039478310502 / 2 ^ 53"
    using fl_tie [of "((7205759403792794 / 2 ^ 54) + (5404319552828211 / 2 ^ 54))" 53 6305039478310502] by simp
  have h4: "fl (1 * (5404319552844595 / 2 ^ 54)) = 5404319552844595 / 2 ^ 54"
    using fl_near [of "(1 * (5404319552844595 / 2 ^ 54))" 54 5404319552844595] by simp
  have h5: "fl ((6305039478310502 / 2 ^ 53) + (5404319552844595 / 2 ^ 54)) = 9007199254732800 / 2 ^ 53"
    using fl_tie [of "((6305039478310502 / 2 ^ 53) + (5404319552844595 / 2 ^ 54))" 53 9007199254732800] by simp
  have h6: "fl ((9007199254732800 / 2 ^ 53) * 100) = 7036874417760000 / 2 ^ 46"
    using fl_near [of "((9007199254732800 / 2 ^ 53) * 100)" 46 7036874417760000] by simp
  show ?thesis unfolding weighted_def fl_03 fl_04 h1 h2 h3 h4 h5 h6 by simp
qed

lemma weighted_O: "weighted 1 1 (9007199254739354 / 2 ^ 53) < 100"
proof -
  have h1: "fl (1 * (7205759403792794 / 2 ^ 54)) = 7205759403792794 / 2 ^ 54"
    using fl_near [of "(1 * (7205759403792794 / 2 ^ 54))" 54 7205759403792794] by simp
  have h2: "fl (1 * (5404319552844595 / 2 ^ 54)) = 5404319552844595 / 2 ^ 54"
    using fl_near [of "(1 * (5404319552844595 / 2 ^ 54))" 54 5404319552844595] by simp
  have h3: "fl ((7205759403792794 / 2 ^ 54) + (5404319552844595 / 2 ^ 54)) = 6305039478318694 / 2 ^ 53"
    using fl_tie [of "((7205759403792794 / 2 ^ 54) + (5404319552844595 / 2 ^ 54))" 53 6305039478318694] by simp
  have h4: "fl ((9007199254739354 / 2 ^ 53) * (5404319552844595 / 2 ^ 54)) = 5404319552843612 / 2 ^ 54"
    using fl_near [of "((9007199254739354 / 2 ^ 53) * (5404319552844595 / 2 ^ 54))" 54 5404319552843612] by simp
  have h5: "fl ((6305039478318694 / 2 ^ 53) + (5404319552843612 / 2 ^ 54)) = 9007199254740500 / 2 ^ 53"
    using fl_near [of "((6305039478318694 / 2 ^ 53) + (5404319552843612 / 2 ^ 54))" 53 9007199254740500] by simp
  have h6: "fl ((9007199254740500 / 2 ^ 53) * 100) = 7036874417766016 / 2 ^ 46"
    using fl_near [of "((9007199254740500 / 2 ^ 53) * 100)" 46 7036874417766016] by simp
  show ?thesis unfolding weighted_def fl_03 fl_04 h1 h2 h3 h4 h5 h6 by simp
qed

lemma hab_formula:
  "calculate_habitability p =
     min 100 (max 0 (fl (fl (fl (fl (max 0 (fl (1 - fl (abs (fl (temperature p - 15)) / 20))) * fl 0.4)
                                 + fl (max 0 (fl (1 - fl (abs (fl (pressure p - 1)) / fl 0.3))) * fl 0.3))
                             + fl (max 0 (fl (1 - fl (abs (fl (oxygen p - 21)) / 5))) * fl 0.3))
                         * 100)))"
  by (simp only: calculate_habitability_def Let_def TARGET_TEMPERATURE_def TARGET_PRESSURE_def
      TARGET_OXYGEN_def HABITABILITY_TOLERANCE_temperature_def
      HABITABILITY_TOLERANCE_pressure_def HABITABILITY_TOLERANCE_oxygen_def
      fl_15 fl_1 fl_21 fl_20 fl_5)

lemma hab_struct:
  "calculate_habitability p =
     min 100 (max 0 (weighted (score (fl (abs (temperature p - 15))) 20)
                              (score (fl (abs (pressure p - 1))) (fl 0.3))
                              (score (fl (abs (oxygen p - 21))) 5)))"
  by (simp only: calculate_habitability_def Let_def TARGET_TEMPERATURE_def TARGET_PRESSURE_def
      TARGET_OXYGEN_def HABITABILITY_TOLERANCE_temperature_def
      HABITABILITY_TOLERANCE_pressure_def HABITABILITY_TOLERANCE_oxygen_def
      fl_15 fl_1 fl_21 fl_20 fl_5 score_def weighted_def fl_abs)

lemma fl_03_pos: "0 < fl 0.3"
  unfolding fl_03 by simp

lemma fl_04_pos: "0 < fl 0.4"
  unfolding fl_04 by simp

lemma fl_nonneg: "0 \<le> x \<Longrightarrow> 0 \<le> fl x"
  using fl_mono [of 0 x] by (simp add: fl_0)

lemma score_ge0: "0 \<le> score d tol"
  by (simp add: score_def)

lemma score_mono:
  assumes "0 < tol" "d \<le> d'"
  shows "score d' tol \<le> score d tol"
proof -
  have "d / tol \<le> d' / tol" using assms by (simp add: divide_right_mono)
  then have "fl (d / tol) \<le> fl (d' / tol)" by (rule fl_mono)
  then have "1 - fl (d' / tol) \<le> 1 - fl (d / tol)" by simp
  then have "fl (1 - fl (d' / tol)) \<le> fl (1 - fl (d / tol))" by (rule fl_mono)
  then show ?thesis unfolding score_def by (rule max.mono [OF order_refl])
qed

lemma score_0: "score 0 tol = 1"
  by (simp add: score_def fl_0 fl_1)

lemma score_le1:
  assumes "0 < tol" "0 \<le> d"
  shows "score d tol \<le> 1"
  using score_mono [OF assms] by (simp add: score_0)

lemma score_zero:
  assumes "0 < tol" "tol \<le> d"
  shows "score d tol = 0"
proof -
  have "1 \<le> d / tol" using assms by simp
  then have "fl 1 \<le> fl (d / tol)" by (rule fl_mono)
  then have "1 - fl (d / tol) \<le> 0" by (simp add: fl_1)
  then have "fl (1 - fl (d / tol)) \<le> fl 0" by (rule fl_mono)
  then show ?thesis by (simp add: score_def fl_0)
qed

lemma weighted_mono:
  assumes "a \<le> a'" "b \<le> b'" "c \<le> c'"
  shows "weighted a b c \<le> weighted a' b' c'"
proof -
  have 1: "fl (a * fl 0.4) \<le> fl (a' * fl 0.4)"
    using assms(1) fl_04_pos by (intro fl_mono mult_right_mono) simp_all
  have 2: "fl (b * fl 0.3) \<le> fl (b' * fl 0.3)"
    using assms(2) fl_03_pos by (intro fl_mono mult_right_mono) simp_all
  have 3: "fl (c * fl 0.3) \<le> fl (c' * fl 0.3)"
    using assms(3) fl_03_pos by (intro fl_mono mult_right_mono) simp_all
  have 4: "fl (fl (a * fl 0.4) + fl (b * fl 0.3)) \<le> fl (fl (a' * fl 0.4) + fl (b' * fl 0.3))"
    by (intro fl_mono add_mono 1 2)
  have 5: "fl (fl (fl (a * fl 0.4) + fl (b * fl 0.3)) + fl (c * fl 0.3))
      \<le> fl (fl (fl (a' * fl 0.4) + fl (b' * fl 0.3)) + fl (c' * fl 0.3))"
    by (intro fl_mono add_mono 3 4)
  show ?thesis unfolding weighted_def by (intro fl_mono mult_right_mono 5) simp
qed

lemma weighted_zero: "weighted 0 0 0 = 0"
  by (simp add: weighted_def fl_0)

lemma hab_bounds: "0 \<le> calculate_habitability p" "calculate_habitability p \<le> 100"
  by (simp_all add: hab_struct)

lemma hab_target:
  assumes "temperature p = 15" "pressure p = 1" "oxygen p = 21"
  shows "calculate_habitability p = 100"
  by (simp add: hab_struct assms fl_0 score_0 weighted_target)

lemma hab_mono:
  assumes "abs (temperature p - 15) \<le> abs (temperature q - 15)"
    "abs (pressure p - 1) \<le> abs (pressure q - 1)"
    "abs (oxygen p - 21) \<le> abs (oxygen q - 21)"
  shows "calculate_habitability q \<le> calculate_habitability p"
proof -
  have "weighted (score (fl (abs (temperature q - 15))) 20)
          (score (fl (abs (pressure q - 1))) (fl 0.3)) (score (fl (abs (oxygen q - 21))) 5)
      \<le> weighted (score (fl (abs (temperature p - 15))) 20)
          (score (fl (abs (pressure p - 1))) (fl 0.3)) (score (fl (abs (oxygen p - 21))) 5)"
    using assms fl_03_pos by (intro weighted_mono score_mono fl_mono) simp_all
  then show ?thesis unfolding hab_struct by (intro min.mono max.mono order_refl)
qed

lemma hab_zero:
  assumes "20 \<le> abs (temperature p - 15)" "0.3 \<le> abs (pressure p - 1)"
    "5 \<le> abs (oxygen p - 21)"
  shows "calculate_habitability p = 0"
proof -
  have "fl 20 \<le> fl (abs (temperature p - 15))" using assms(1) by (rule fl_mono)
  then have 1: "score (fl (abs (temperature p - 15))) 20 = 0"
    by (intro score_zero) (simp_all add: fl_20)
  have "fl 0.3 \<le> fl (abs (pressure p - 1))" using assms(2) by (rule fl_mono)
  then have 2: "score (fl (abs (pressure p - 1))) (fl 0.3) = 0"
    using fl_03_pos by (intro score_zero)
  have "fl 5 \<le> fl (abs (oxygen p - 21))" using assms(3) by (rule fl_mono)
  then have 3: "score (fl (abs (oxygen p - 21))) 5 = 0"
    by (intro score_zero) (simp_all add: fl_5)
  show ?thesis unfolding hab_struct 1 2 3 weighted_zero by simp
qed

lemma dev_nonneg: "0 \<le> fl (abs x)"
  by (rule fl_nonneg) simp

lemma hab_close:
  assumes "calculate_habitability p = 100"
  shows "abs (temperature p - 15) < 1 / 2 ^ 40" "abs (pressure p - 1) < 1 / 2 ^ 40"
    "abs (oxygen p - 21) < 1 / 2 ^ 40"
proof -
  let ?T = "score (fl (abs (temperature p - 15))) 20"
  let ?P = "score (fl (abs (pressure p - 1))) (fl 0.3)"
  let ?O = "score (fl (abs (oxygen p - 21))) 5"
  have w: "100 \<le> weighted ?T ?P ?O" using assms unfolding hab_struct by linarith
  have le: "?T \<le> 1" "?P \<le> 1" "?O \<le> 1"
    using fl_03_pos by (intro score_le1 dev_nonneg; simp)+
  have d: "fl (1 / 2 ^ 40) = 1 / 2 ^ 40" unfolding fl_dev40 by simp
  show "abs (temperature p - 15) < 1 / 2 ^ 40"
  proof (rule ccontr)
    assume "\<not> abs (temperature p - 15) < 1 / 2 ^ 40"
    then have "1 / 2 ^ 40 \<le> abs (temperature p - 15)" by simp
    then have "fl (1 / 2 ^ 40) \<le> fl (abs (temperature p - 15))" by (rule fl_mono)
    then have "?T \<le> score (1 / 2 ^ 40) 20" unfolding d by (intro score_mono) simp_all
    then have "weighted ?T ?P ?O \<le> weighted (score (1 / 2 ^ 40) 20) 1 1"
      using le by (intro weighted_mono)
    with w weighted_T show False unfolding score_T by linarith
  qed
  show "abs (pressure p - 1) < 1 / 2 ^ 40"
  proof (rule ccontr)
    assume "\<not> abs (pressure p - 1) < 1 / 2 ^ 40"
    then have "1 / 2 ^ 40 \<le> abs (pressure p - 1)" by simp
    then have "fl (1 / 2 ^ 40) \<le> fl (abs (pressure p - 1))" by (rule fl_mono)
    then have "?P \<le> score (1 / 2 ^ 40) (fl 0.3)" unfolding d using fl_03_pos by (intro score_mono)
    then have "weighted ?T ?P ?O \<le> weighted 1 (score (1 / 2 ^ 40) (fl 0.3)) 1"
      using le by (intro weighted_mono)
    with w weighted_P show False unfolding fl_03 score_P by linarith
  qed
  show "abs (oxygen p - 21) < 1 / 2 ^ 40"
  proof (rule ccontr)
    assume "\<not> abs (oxygen p - 21) < 1 / 2 ^ 40"
    then have "1 / 2 ^ 40 \<le> abs (oxygen p - 21)" by simp
    then have "fl (1 / 2 ^ 40) \<le> fl (abs (oxygen p - 21))" by (rule fl_mono)
    then have "?O \<le> score (1 / 2 ^ 40) 5" unfolding d by (intro score_mono) simp_all
    then have "weighted ?T ?P ?O \<le> weighted 1 1 (score (1 / 2 ^ 40) 5)"
      using le by (intro weighted_mono)
    with w weighted_O show False unfolding score_O by linarith
  qed
qed

lemma hab_dev49:
  assumes "temperature p = 15 + 1 / 2 ^ 49" "pressure p = 1" "oxygen p = 21"
  shows "calculate_habitability p = 100"
proof -
  have d: "fl (1 / 2 ^ 49) = 1 / 2 ^ 49" unfolding fl_dev49 by simp
  have t: "abs (temperature p - 15) = 1 / 2 ^ 49" unfolding assms by simp
  have po: "abs (pressure p - 1) = 0" "abs (oxygen p - 21) = 0" unfolding assms by simp_all
  show ?thesis unfolding hab_struct t po d fl_0 score_0 score_dev49 weighted_dev49 by simp
qed

lemma example_fields:
  "temperature earth_like = 15" "pressure earth_like = 1" "oxygen earth_like = 21"
  "temperature warm_world = 25" "pressure warm_world = 1" "oxygen warm_world = 21"
  "temperature mars_like = -63" "pressure mars_like = 0.006" "oxygen mars_like = 0.13"
  by (simp_all add: earth_like_def warm_world_def mars_like_def new_planet_def Let_def)

lemma barely_warm_fields:
  "temperature barely_warm = 15 + 1 / 2 ^ 49" "pressure barely_warm = 1" "oxygen barely_warm = 21"
  by (simp_all add: barely_warm_def new_planet_def Let_def)

text \<open>
  Claim C5, amended. \<^verbatim>\<open>calculate_habitability()\<close> is the weighted sum
  \<open>(temp_score * 0.4 + pressure_score * 0.3 + oxygen_score * 0.3) * 100\<close> evaluated in double
  arithmetic and clamped to \<open>[0, 100]\<close>, each score being
  \<open>max 0 (1 - |current - target| / tolerance)\<close> with targets 15, 1, 21 and tolerances 20,
  0.3, 5. It lies between 0 and 100. It is 100 when temperature is 15, pressure 1 and
  oxygen 21, and when it is 100 every deviation is below \<open>1 / 2 ^ 40\<close>. It never grows when
  the absolute deviations grow (planet \<open>q\<close> deviates at least as much as \<open>p\<close> on every
  axis). It is 0 when all three deviations are at or beyond their tolerances.
\<close>

theorem calculate_habitability_rounded:
  "calculate_habitability p =
     min 100 (max 0 (fl (fl (fl (fl (max 0 (fl (1 - fl (abs (fl (temperature p - 15)) / 20))) * fl 0.4)
                                 + fl (max 0 (fl (1 - fl (abs (fl (pressure p - 1)) / fl 0.3))) * fl 0.3))
                             + fl (max 0 (fl (1 - fl (abs (fl (oxygen p - 21)) / 5))) * fl 0.3))
                         * 100)))
   \<and> 0 \<le> calculate_habitability p \<and> calculate_habitability p \<le> 100
   \<and> (temperature p = 15 \<and> pressure p = 1 \<and> oxygen p = 21 \<longrightarrow> calculate_habitability p = 100)
   \<and> (calculate_habitability p = 100
      \<longrightarrow> abs (temperature p - 15) < 1 / 2 ^ 40 \<and> abs (pressure p - 1) < 1 / 2 ^ 40
          \<and> abs (oxygen p - 21) < 1 / 2 ^ 40)
   \<and> (abs (temperature p - 15) \<le> abs (temperature q - 15) \<and> abs (pressure p - 1) \<le> abs (pressure q - 1)
        \<and> abs (oxygen p - 21) \<le> abs (oxygen q - 21)
      \<longrightarrow> calculate_habitability q \<le> calculate_habitability p)
   \<and> (20 \<le> abs (temperature p - 15) \<and> 0.3 \<le> abs (pressure p - 1) \<and> 5 \<le> abs (oxygen p - 21)
      \<longrightarrow> calculate_habitability p = 0)"
proof -
  have t: "temperature p = 15 \<and> pressure p = 1 \<and> oxygen p = 21 \<longrightarrow> calculate_habitability p = 100"
    using hab_target [of p] by blast
  have c: "calculate_habitability p = 100
      \<longrightarrow> abs (temperature p - 15) < 1 / 2 ^ 40 \<and> abs (pressure p - 1) < 1 / 2 ^ 40
          \<and> abs (oxygen p - 21) < 1 / 2 ^ 40"
    using hab_close [of p] by blast
  have m: "abs (temperature p - 15) \<le> abs (temperature q - 15) \<and> abs (pressure p - 1) \<le> abs (pressure q - 1)
        \<and> abs (oxygen p - 21) \<le> abs (oxygen q - 21)
      \<longrightarrow> calculate_habitability q \<le> calculate_habitability p"
    using hab_mono [of p q] by blast
  have z: "20 \<le> abs (temperature p - 15) \<and> 0.3 \<le> abs (pressure p - 1) \<and> 5 \<le> abs (oxygen p - 21)
      \<longrightarrow> calculate_habitability p = 0"
    using hab_zero [of p] by blast
  show ?thesis by (intro conjI hab_formula hab_bounds t c m z)
qed

text \<open>
  Claim C5, as stated, fails. At temperature \<open>15 + 1 / 2 ^ 49\<close>, pressure 1 and oxygen 21 the
  temperature score rounds to \<open>1 - 1 / 2 ^ 53\<close> and the weighted sum rounds back to 1: the
  habitability is exactly 100 although the temperature is not 15, and it has not fallen
  below the habitability on target although the deviation has grown inside the tolerance.
\<close>

theorem habitability_100_off_target:
  "calculate_habitability barely_warm = 100
   \<and> temperature barely_warm = 15 + 1 / 2 ^ 49 \<and> temperature barely_warm \<noteq> 15
   \<and> pressure barely_warm = 1 \<and> oxygen barely_warm = 21
   \<and> calculate_habitability earth_like = 100
   \<and> abs (temperature earth_like - 15) < abs (temperature barely_warm - 15)
   \<and> abs (temperature barely_warm - 15) \<le> 20
   \<and> \<not> calculate_habitability barely_warm < calculate_habitability earth_like"
  using hab_dev49 [of barely_warm] hab_target [of earth_like]
  by (simp add: barely_warm_fields example_fields)

theorem calculate_habitability_rounded_witness:
  "calculate_habitability earth_like = 100
   \<and> calculate_habitability barely_warm = 100 \<and> abs (temperature barely_warm - 15) < 1 / 2 ^ 40
   \<and> calculate_habitability warm_world \<le> calculate_habitability earth_like
   \<and> calculate_habitability mars_like = 0
   \<and> 0 \<le> calculate_habitability warm_world \<and> calculate_habitability warm_world \<le> 100"
proof -
  note r = conjunct2 [OF calculate_habitability_rounded]
  note r3 = conjunct2 [OF conjunct2 [OF r]]
  have e: "calculate_habitability earth_like = 100"
    using conjunct1 [OF r3, of earth_like] by (simp add: example_fields)
  have bw: "calculate_habitability barely_warm = 100"
    using hab_dev49 [of barely_warm] by (simp add: barely_warm_fields)
  have cl: "abs (temperature barely_warm - 15) < 1 / 2 ^ 40"
    using conjunct1 [OF conjunct2 [OF r3], of barely_warm] bw by blast
  have w: "calculate_habitability warm_world \<le> calculate_habitability earth_like"
    using conjunct1 [OF conjunct2 [OF conjunct2 [OF r3]], of earth_like warm_world]
    by (simp add: example_fields)
  have z: "calculate_habitability mars_like = 0"
    using conjunct2 [OF conjunct2 [OF conjunct2 [OF r3]], of mars_like]
    by (simp add: example_fields)
  have b: "0 \<le> calculate_habitability warm_world" "calculate_habitability warm_world \<le> 100"
    using conjunct1 [OF r, of warm_world] conjunct1 [OF conjunct2 [OF r], of warm_world]
    by blast+
  show ?thesis by (intro conjI e bw cl w z b)
qed

section \<open>Properties of Planet.update and of the event effects\<close>

lemma add_building_effect_frame:
  "temperature (add_building_effect x p) = temperature p"
  "pressure (add_building_effect x p) = pressure p"
  "oxygen (add_building_effect x p) = oxygen p"
  "base_temperature (add_building_effect x p) = base_temperature p"
  "base_pressure (add_building_effect x p) = base_pressure p"
  "base_oxygen (add_building_effect x p) = base_oxygen p"
  "buildings (add_building_effect x p) = buildings p"
  "active_events (add_building_effect x p) = active_events p"
  "name (add_building_effect x p) = name p"
  "history (add_building_effect x p) = history p"
  by (simp_all add: add_building_effect_def split: option.splits)

lemma fold_effect_frame:
  "temperature (fold add_building_effect bs p) = temperature p"
  "pressure (fold add_building_effect bs p) = pressure p"
  "oxygen (fold add_building_effect bs p) = oxygen p"
  "base_temperature (fold add_building_effect bs p) = base_temperature p"
  "base_pressure (fold add_building_effect bs p) = base_pressure p"
  "base_oxygen (fold add_building_effect bs p) = base_oxygen p"
  "buildings (fold add_building_effect bs p) = buildings p"
  "active_events (fold add_building_effect bs p) = active_events p"
  "name (fold add_building_effect bs p) = name p"
  "history (fold add_building_effect bs p) = history p"
  by (induction bs arbitrary: p; simp add: add_building_effect_frame)+

lemma update_modifiers_frame:
  "temperature (update_modifiers p) = temperature p"
  "pressure (update_modifiers p) = pressure p"
  "oxygen (update_modifiers p) = oxygen p"
  "base_temperature (update_modifiers p) = base_temperature p"
  "base_pressure (update_modifiers p) = base_pressure p"
  "base_oxygen (update_modifiers p) = base_oxygen p"
  "buildings (update_modifiers p) = buildings p"
  "active_events (update_modifiers p) = active_events p"
  "name (update_modifiers p) = name p"
  "history (update_modifiers p) = history p"
  by (simp_all add: update_modifiers_def fold_effect_frame)

lemma remove_building_frame:
  "temperature (remove_building p b n) = temperature p"
  "pressure (remove_building p b n) = pressure p"
  "oxygen (remove_building p b n) = oxygen p"
  "base_temperature (remove_building p b n) = base_temperature p"
  "base_pressure (remove_building p b n) = base_pressure p"
  "base_oxygen (remove_building p b n) = base_oxygen p"
  "active_events (remove_building p b n) = active_events p"
  "name (remove_building p b n) = name p"
  "history (remove_building p b n) = history p"
  by (simp_all add: remove_building_def Let_def update_modifiers_frame split: option.splits)

lemma add_building_frame:
  "temperature (add_building p b n) = temperature p"
  "pressure (add_building p b n) = pressure p"
  "oxygen (add_building p b n) = oxygen p"
  "base_temperature (add_building p b n) = base_temperature p"
  "base_pressure (add_building p b n) = base_pressure p"
  "base_oxygen (add_building p b n) = base_oxygen p"
  "active_events (add_building p b n) = active_events p"
  "name (add_building p b n) = name p"
  "history (add_building p b n) = history p"
  by (simp_all add: add_building_def Let_def update_modifiers_frame split: option.splits)

lemma damage_buildings_frame:
  "damage_buildings c bs w p = (w', p') \<Longrightarrow>
     temperature p' = temperature p \<and> pressure p' = pressure p \<and> oxygen p' = oxygen p
     \<and> base_temperature p' = base_temperature p \<and> base_pressure p' = base_pressure p
     \<and> base_oxygen p' = base_oxygen p \<and> active_events p' = active_events p
     \<and> name p' = name p \<and> history p' = history p
     \<and> clock w' = clock w \<and> clock_reads w' = clock_reads w \<and> rand w' = rand w"
proof (induction bs arbitrary: w p)
  case Nil
  then show ?case by simp
next
  case (Cons b bs)
  then show ?case
    by (auto simp: random_random_def Let_def remove_building_frame split: if_splits prod.splits)
qed

lemma one_shot_effects_Inr:
  assumes "one_shot_effects w ae p r = Inr (w1, ae1, p1, r1)"
  shows "temperature p1 = temperature p \<and> pressure p1 = pressure p \<and> oxygen p1 = oxygen p
     \<and> base_temperature p1 = base_temperature p \<and> base_pressure p1 = base_pressure p
     \<and> base_oxygen p1 = base_oxygen p \<and> active_events p1 = active_events p
     \<and> name p1 = name p \<and> history p1 = history p
     \<and> clock w1 = clock w \<and> clock_reads w1 = clock_reads w \<and> rand w1 = rand w
     \<and> event ae1 = event ae \<and> duration ae1 = duration ae \<and> start_time ae1 = start_time ae
     \<and> effects_applied ae1"
proof (cases "effects_applied ae")
  case True
  then show ?thesis using assms by (simp add: one_shot_effects_def)
next
  case False
  then obtain r' where r': "one_shot_resources (effects (event ae)) r = Inr r'"
    using assms by (auto simp: one_shot_effects_def and_then_def split: sum.splits)
  show ?thesis
  proof (cases "lookup (effects (event ae)) ''building_damage_chance''")
    case None
    then show ?thesis using assms False r' by (auto simp: one_shot_effects_def and_then_def)
  next
    case (Some c)
    then have "damage_buildings c (keys (buildings p)) w p = (w1, p1)" and "ae1 = ae\<lparr>effects_applied := True\<rparr>"
      using assms False r' by (auto simp: one_shot_effects_def and_then_def split: prod.splits)
    then show ?thesis using damage_buildings_frame [of c "keys (buildings p)" w p w1 p1] by simp
  qed
qed

lemma continuous_effects_eq:
  assumes "continuous_effects w ae p = (w1, p1)"
  shows "temperature p1 = temperature p \<and> pressure p1 = pressure p \<and> oxygen p1 = oxygen p
     \<and> name p1 = name p \<and> history p1 = history p \<and> active_events p1 = active_events p
     \<and> buildings p1 = buildings p
     \<and> clock w1 = clock w \<and> rand w1 = rand w \<and> rand_draws w1 = rand_draws w
     \<and> clock_reads w1 = (if duration ae > 0 then Suc (clock_reads w) else clock_reads w)
     \<and> base_temperature p1 = base_temperature p
           + continuous_step (clock w) (clock_reads w) ''temperature_modifier'' ae
     \<and> base_pressure p1 = base_pressure p
           + continuous_step (clock w) (clock_reads w) ''pressure_modifier'' ae
     \<and> base_oxygen p1 = base_oxygen p
           + continuous_step (clock w) (clock_reads w) ''oxygen_modifier'' ae"
  using assms
  by (auto simp: continuous_effects_def continuous_step_def is_expired_def time_time_def Let_def
      split: if_splits)

lemma apply_effects_Inr:
  assumes "apply_effects w ae p r = Inr (w1, ae1, p1, r1)"
  shows "temperature p1 = temperature p \<and> pressure p1 = pressure p \<and> oxygen p1 = oxygen p
     \<and> name p1 = name p \<and> history p1 = history p \<and> active_events p1 = active_events p
     \<and> event ae1 = event ae \<and> duration ae1 = duration ae \<and> start_time ae1 = start_time ae
     \<and> effects_applied ae1
     \<and> clock w1 = clock w \<and> rand w1 = rand w
     \<and> clock_reads w1 = (if duration ae > 0 then Suc (clock_reads w) else clock_reads w)
     \<and> base_temperature p1 = base_temperature p
           + continuous_step (clock w) (clock_reads w) ''temperature_modifier'' ae
     \<and> base_pressure p1 = base_pressure p
           + continuous_step (clock w) (clock_reads w) ''pressure_modifier'' ae
     \<and> base_oxygen p1 = base_oxygen p
           + continuous_step (clock w) (clock_reads w) ''oxygen_modifier'' ae"
proof -
  obtain wa pa where a: "one_shot_effects w ae p r = Inr (wa, ae1, pa, r1)"
    and b: "continuous_effects wa ae1 pa = (w1, p1)"
    using assms by (auto simp: apply_effects_def and_then_def split: sum.splits prod.splits)
  from one_shot_effects_Inr [OF a] continuous_effects_eq [OF b]
  show ?thesis by (simp add: continuous_step_def)
qed

lemma apply_each_Inr:
  "apply_each w dt aes p = Inr (w2, aes2, p2) \<Longrightarrow>
     temperature p2 = temperature p \<and> pressure p2 = pressure p \<and> oxygen p2 = oxygen p
     \<and> name p2 = name p \<and> history p2 = history p
     \<and> aes2 = map (\<lambda>ae. ae\<lparr>effects_applied := True\<rparr>) aes
     \<and> clock w2 = clock w \<and> rand w2 = rand w
     \<and> base_temperature p2 = base_temperature p
           + continuous_total (clock w) (clock_reads w) ''temperature_modifier'' aes
     \<and> base_pressure p2 = base_pressure p
           + continuous_total (clock w) (clock_reads w) ''pressure_modifier'' aes
     \<and> base_oxygen p2 = base_oxygen p
           + continuous_total (clock w) (clock_reads w) ''oxygen_modifier'' aes"
proof (induction aes arbitrary: w p w2 aes2 p2)
  case Nil
  then show ?case by simp
next
  case (Cons ae aes)
  from Cons.prems obtain wa aea pa ra wb aesb where
    a: "apply_effects w ae p (FloatObj dt) = Inr (wa, aea, pa, ra)"
    and b: "apply_each wa dt aes pa = Inr (wb, aesb, p2)"
    and c: "w2 = wb" "aes2 = aea # aesb"
    by (auto simp: and_then_def split: sum.splits)
  note A = apply_effects_Inr [OF a]
  note B = Cons.IH [OF b]
  have aea: "aea = ae\<lparr>effects_applied := True\<rparr>"
    using A by (cases ae, cases aea) simp
  show ?case using A B c aea by simp
qed

lemma one_shot_resources_float:
  "one_shot_resources effs (FloatObj d) =
     (if lookup effs ''credits_bonus'' = None \<and> lookup effs ''credits_cost'' = None
         \<and> lookup effs ''energy_bonus'' = None \<and> lookup effs ''energy_cost'' = None
         \<and> lookup effs ''science_bonus'' = None
      then Inr (FloatObj d) else Inl AttributeError)"
  by (auto simp: one_shot_resources_def when_in_def and_then_def obj_add_resources_def
      obj_spend_resources_def split: option.splits)

lemma apply_effects_float:
  "forget_arg (apply_effects w ae p (FloatObj d)) = forget_arg (apply_effects w ae p (FloatObj d'))"
  by (simp add: forget_arg_def apply_effects_def one_shot_effects_def one_shot_resources_float
      and_then_def split: prod.splits)

lemma apply_each_unfold:
  "apply_each w d (ae # aes) p =
      and_then (forget_arg (apply_effects w ae p (FloatObj d))) (\<lambda>(w1, ae1, p1).
        and_then (apply_each w1 d aes p1) (\<lambda>(w2, aes2, p2). Inr (w2, ae1 # aes2, p2)))"
  by (simp add: forget_arg_def and_then_def split: sum.splits)

lemma apply_each_float: "apply_each w d aes p = apply_each w d' aes p"
proof (induction aes arbitrary: w p)
  case Nil
  show ?case by simp
next
  case (Cons ae aes)
  have "apply_each w d (ae # aes) p =
      and_then (forget_arg (apply_effects w ae p (FloatObj d))) (\<lambda>(w1, ae1, p1).
        and_then (apply_each w1 d aes p1) (\<lambda>(w2, aes2, p2). Inr (w2, ae1 # aes2, p2)))"
    by (rule apply_each_unfold)
  also have "\<dots> = and_then (forget_arg (apply_effects w ae p (FloatObj d'))) (\<lambda>(w1, ae1, p1).
        and_then (apply_each w1 d aes p1) (\<lambda>(w2, aes2, p2). Inr (w2, ae1 # aes2, p2)))"
    by (simp only: apply_effects_float [of w ae p d d'])
  also have "\<dots> = and_then (forget_arg (apply_effects w ae p (FloatObj d'))) (\<lambda>(w1, ae1, p1).
        and_then (apply_each w1 d' aes p1) (\<lambda>(w2, aes2, p2). Inr (w2, ae1 # aes2, p2)))"
    by (simp only: Cons.IH)
  also have "\<dots> = apply_each w d' (ae # aes) p"
    by (rule apply_each_unfold [symmetric])
  finally show ?case .
qed

lemma update_events_float: "update_events w p d = update_events w p d'"
  by (simp add: update_events_def apply_each_float [of _ d _ _ d'] split: prod.splits)

lemma update_float: "update w p d = update w p d'"
  by (simp add: update_def Let_def update_events_float [of _ _ d d'])

lemma prune_expired_clock:
  "prune_expired w aes = (kept, w1) \<Longrightarrow> clock w1 = clock w \<and> rand w1 = rand w \<and> rand_draws w1 = rand_draws w"
  by (induction aes arbitrary: w kept w1)
     (auto simp: is_expired_def time_time_def Let_def split: if_splits prod.splits)

lemma update_events_Inr:
  assumes "update_events w p dt = Inr (w', p')"
  shows "temperature p' = temperature p \<and> pressure p' = pressure p \<and> oxygen p' = oxygen p
     \<and> active_events p' = map (\<lambda>ae. ae\<lparr>effects_applied := True\<rparr>) (fst (prune_expired w (active_events p)))
     \<and> base_temperature p' = base_temperature p
         + continuous_total (clock w) (clock_reads (snd (prune_expired w (active_events p))))
             ''temperature_modifier'' (fst (prune_expired w (active_events p)))
     \<and> base_pressure p' = base_pressure p
         + continuous_total (clock w) (clock_reads (snd (prune_expired w (active_events p))))
             ''pressure_modifier'' (fst (prune_expired w (active_events p)))
     \<and> base_oxygen p' = base_oxygen p
         + continuous_total (clock w) (clock_reads (snd (prune_expired w (active_events p))))
             ''oxygen_modifier'' (fst (prune_expired w (active_events p)))"
proof -
  obtain kept w1 where pr: "prune_expired w (active_events p) = (kept, w1)"
    by (cases "prune_expired w (active_events p)")
  then obtain w2 aes p2 where ea: "apply_each w1 dt kept (p\<lparr>active_events := kept\<rparr>) = Inr (w2, aes, p2)"
    and res: "w' = w2" "p' = p2\<lparr>active_events := aes\<rparr>"
    using assms by (auto simp: update_events_def and_then_def split: sum.splits)
  from prune_expired_clock [OF pr] have clk: "clock w1 = clock w" by simp
  from apply_each_Inr [OF ea] show ?thesis using pr res clk by simp
qed

lemma update_Inr:
  assumes "update w p dt = Inr (w', p')"
  shows "temperature p' = max MIN_TEMPERATURE (min MAX_TEMPERATURE (base_temperature p + temperature_modifier p))
     \<and> pressure p' = max MIN_PRESSURE (min MAX_PRESSURE (base_pressure p + pressure_modifier p))
     \<and> oxygen p' = max MIN_OXYGEN (min MAX_OXYGEN (base_oxygen p + oxygen_modifier p))
     \<and> active_events p' = map (\<lambda>ae. ae\<lparr>effects_applied := True\<rparr>) (fst (prune_expired w (active_events p)))
     \<and> base_temperature p' = base_temperature p
         + continuous_total (clock w) (clock_reads (snd (prune_expired w (active_events p))))
             ''temperature_modifier'' (fst (prune_expired w (active_events p)))
     \<and> base_pressure p' = base_pressure p
         + continuous_total (clock w) (clock_reads (snd (prune_expired w (active_events p))))
             ''pressure_modifier'' (fst (prune_expired w (active_events p)))
     \<and> base_oxygen p' = base_oxygen p
         + continuous_total (clock w) (clock_reads (snd (prune_expired w (active_events p))))
             ''oxygen_modifier'' (fst (prune_expired w (active_events p)))"
proof -
  from assms obtain q where q: "update_events w q dt = Inr (w', p')"
    and qf: "temperature q = max MIN_TEMPERATURE (min MAX_TEMPERATURE (base_temperature p + temperature_modifier p))"
      "pressure q = max MIN_PRESSURE (min MAX_PRESSURE (base_pressure p + pressure_modifier p))"
      "oxygen q = max MIN_OXYGEN (min MAX_OXYGEN (base_oxygen p + oxygen_modifier p))"
      "active_events q = active_events p" "base_temperature q = base_temperature p"
      "base_pressure q = base_pressure p" "base_oxygen q = base_oxygen p"
    by (auto simp: update_def Let_def and_then_def split: sum.splits if_splits)
  from update_events_Inr [OF q] qf show ?thesis by simp
qed

text \<open>
  Claim C4. Whenever \<^verbatim>\<open>Planet.update\<close> returns, the planet it leaves has its temperature
  in \<open>[-273.15, 1000]\<close>, its pressure in \<open>[0, 10]\<close> and its oxygen in \<open>[0, 100]\<close>.
  The planet before the call, the world and \<open>dt\<close> are arbitrary, so the statement covers
  the planets reached by any sequence of \<^verbatim>\<open>add_building\<close>, \<^verbatim>\<open>remove_building\<close> and event
  effect applications.
\<close>

theorem update_keeps_bounds:
  assumes "update w p dt = Inr (w', p')"
  shows "-273.15 \<le> temperature p' \<and> temperature p' \<le> 1000
     \<and> 0 \<le> pressure p' \<and> pressure p' \<le> 10 \<and> 0 \<le> oxygen p' \<and> oxygen p' \<le> 100"
  using update_Inr [OF assms]
  by (simp add: MIN_TEMPERATURE_def MAX_TEMPERATURE_def MIN_PRESSURE_def MAX_PRESSURE_def
      MIN_OXYGEN_def MAX_OXYGEN_def)

lemma timed_before_simps:
  "timed_before aes 0 = 0"
  "timed_before (a # aes) (Suc i) = (if duration a \<noteq> 0 then 1 else 0) + timed_before aes i"
  by (simp_all add: timed_before_def)

lemma is_expired_snd:
  "snd (is_expired w a) = w\<lparr>clock_reads := clock_reads w + (if duration a \<noteq> 0 then 1 else 0)\<rparr>"
  by (simp add: is_expired_def time_time_def)

lemma expired_when_pruned_simps:
  "expired_when_pruned w (a # aes) 0 = fst (is_expired w a)"
  "expired_when_pruned w (a # aes) (Suc i)
     = expired_when_pruned (w\<lparr>clock_reads := clock_reads w + (if duration a \<noteq> 0 then 1 else 0)\<rparr>) aes i"
  by (simp_all add: expired_when_pruned_def timed_before_simps add.assoc)

lemma remaining_events_Cons:
  "remaining_events w (a # aes) =
     (if \<not> fst (is_expired w a) then [a] else [])
       @ remaining_events (w\<lparr>clock_reads := clock_reads w + (if duration a \<noteq> 0 then 1 else 0)\<rparr>) aes"
proof -
  have "[0..<Suc (length aes)] = 0 # [Suc 0..<Suc (length aes)]"
    by (subst upt_rec) simp
  then have up: "[0..<length (a # aes)] = 0 # map Suc [0..<length aes]"
    by (simp only: map_Suc_upt list.size(4)) simp
  show ?thesis
    unfolding remaining_events_def up
    by (simp add: filter_map comp_def expired_when_pruned_simps)
qed

lemma remaining_events_Nil: "remaining_events w [] = []"
  by (simp add: remaining_events_def)

lemma prune_expired_char:
  "prune_expired w aes
     = (remaining_events w aes, w\<lparr>clock_reads := clock_reads w + timed_before aes (length aes)\<rparr>)"
proof (induction aes arbitrary: w)
  case Nil
  show ?case by (simp add: remaining_events_def timed_before_def)
next
  case (Cons a aes)
  have e: "is_expired w a = (fst (is_expired w a), snd (is_expired w a))" by simp
  show ?case
    by (subst prune_expired.simps, subst e)
       (simp add: Cons.IH is_expired_snd remaining_events_Cons timed_before_simps add.assoc
          del: prune_expired.simps)
qed

text \<open>
  Claim C2, amended. Whenever \<^verbatim>\<open>Planet.update(dt)\<close> returns, it has first pruned the active
  events whose \<^verbatim>\<open>is_expired()\<close> is true and then applied the effects of each remaining
  event, in order: the events left on the planet are exactly those that did not answer
  expired when asked (\<open>remaining_events\<close>), with their one-shot flag set, and each base
  value has grown by the configured modifier times 0.001 for every remaining event of
  positive duration that is not expired at the reading its \<^verbatim>\<open>apply_effects\<close> call takes. The
  increment is a fixed amount for each call: the same call with any other \<open>dt'\<close> returns the
  same world and planet.
\<close>

theorem update_effects_independent_of_dt:
  assumes "update w p dt = Inr (w', p')"
  shows "update w p dt' = Inr (w', p')
     \<and> active_events p'
         = map (\<lambda>ae. ae\<lparr>effects_applied := True\<rparr>) (remaining_events w (active_events p))
     \<and> base_temperature p' = base_temperature p
         + continuous_total (clock w)
             (clock_reads w + timed_before (active_events p) (length (active_events p)))
             ''temperature_modifier'' (remaining_events w (active_events p))
     \<and> base_pressure p' = base_pressure p
         + continuous_total (clock w)
             (clock_reads w + timed_before (active_events p) (length (active_events p)))
             ''pressure_modifier'' (remaining_events w (active_events p))
     \<and> base_oxygen p' = base_oxygen p
         + continuous_total (clock w)
             (clock_reads w + timed_before (active_events p) (length (active_events p)))
             ''oxygen_modifier'' (remaining_events w (active_events p))"
  using update_Inr [OF assms] assms update_float [of w p dt' dt]
  by (simp add: prune_expired_char)

lemmas example_defs = still_world_def planet_in_heat_wave_def heat_wave_active_def heat_wave_def
  hot_planet_def apply_event_def earth_like_def new_planet_def no_requirements_def

lemmas update_defs = update_def update_events_def is_expired_def time_time_def
  apply_effects_def one_shot_effects_def continuous_effects_def and_then_def Let_def
  dict_get_def lookup_def
  MIN_TEMPERATURE_def MAX_TEMPERATURE_def MIN_PRESSURE_def MAX_PRESSURE_def
  MIN_OXYGEN_def MAX_OXYGEN_def

text \<open>
  Claim C2, as stated, fails. A planet at base temperature 15 carries one active event
  of duration 120 whose temperature modifier is 10. \<^verbatim>\<open>update(1)\<close> and \<^verbatim>\<open>update(2)\<close> both leave
  the base temperature at \<open>15 + 10 * 0.001\<close>: doubling \<open>dt\<close> does not double the increment.
\<close>

theorem update_dt_counterexample:
  "map_sum id (base_temperature \<circ> snd) (update still_world planet_in_heat_wave 1) = Inr (15 + 10 * 0.001 * 1)
   \<and> map_sum id (base_temperature \<circ> snd) (update still_world planet_in_heat_wave 2) = Inr (15 + 10 * 0.001)
   \<and> map_sum id (base_temperature \<circ> snd) (update still_world planet_in_heat_wave 2) \<noteq> Inr (15 + 10 * 0.001 * 2)
   \<and> base_temperature planet_in_heat_wave = 15"
  by (simp add: example_defs update_defs)

theorem update_keeps_bounds_witness:
  "\<exists>w' p'. update still_world hot_planet 1 = Inr (w', p')
     \<and> temperature p' = 1000 \<and> pressure p' = 1 \<and> oxygen p' = 21
     \<and> -273.15 \<le> temperature p' \<and> temperature p' \<le> 1000
     \<and> 0 \<le> pressure p' \<and> pressure p' \<le> 10 \<and> 0 \<le> oxygen p' \<and> oxygen p' \<le> 100"
proof -
  have "\<exists>w' p'. update still_world hot_planet 1 = Inr (w', p')
     \<and> temperature p' = 1000 \<and> pressure p' = 1 \<and> oxygen p' = 21"
    by (simp add: example_defs update_defs add_building_def update_modifiers_def
        add_building_effect_def building_effects_def)
  then obtain w' p' where r: "update still_world hot_planet 1 = Inr (w', p')"
    and v: "temperature p' = 1000" "pressure p' = 1" "oxygen p' = 21"
    by blast
  from update_keeps_bounds [OF r] r v show ?thesis by blast
qed

lemmas storm_defs = planet_after_storm_def old_dust_storm_def windfall_done_def dust_storm_def
  windfall_def

theorem update_effects_independent_of_dt_witness:
  "\<exists>w' p'. update still_world planet_after_storm 1 = Inr (w', p')
     \<and> update still_world planet_after_storm 2 = Inr (w', p')
     \<and> active_events planet_after_storm = [old_dust_storm, windfall_done, heat_wave_active]
     \<and> fst (is_expired still_world old_dust_storm)
     \<and> fst (is_expired still_world windfall_done)
     \<and> \<not> fst (is_expired still_world heat_wave_active)
     \<and> active_events p' = [heat_wave_active]
     \<and> base_temperature p' = 15 + 10 * 0.001 \<and> base_pressure p' = 1 \<and> base_oxygen p' = 21"
proof -
  have "\<exists>w' p'. update still_world planet_after_storm 1 = Inr (w', p')"
    by (simp add: example_defs storm_defs update_defs)
  then obtain w' p' where r: "update still_world planet_after_storm 1 = Inr (w', p')"
    by blast
  have evs: "active_events planet_after_storm = [old_dust_storm, windfall_done, heat_wave_active]"
    by (simp add: planet_after_storm_def apply_event_def earth_like_def new_planet_def)
  have ex: "fst (is_expired still_world old_dust_storm)" "fst (is_expired still_world windfall_done)"
    "\<not> fst (is_expired still_world heat_wave_active)"
    by (simp_all add: is_expired_def time_time_def still_world_def old_dust_storm_def
        windfall_done_def heat_wave_active_def)
  have rem: "remaining_events still_world [old_dust_storm, windfall_done, heat_wave_active]
      = [heat_wave_active]"
    by (simp add: remaining_events_Cons remaining_events_Nil is_expired_def time_time_def
        still_world_def old_dust_storm_def windfall_done_def heat_wave_active_def)
  have tb: "timed_before [old_dust_storm, windfall_done, heat_wave_active] (Suc (Suc (Suc 0))) = 2"
    by (simp add: timed_before_def old_dust_storm_def windfall_done_def heat_wave_active_def)
  have base: "base_temperature planet_after_storm = 15" "base_pressure planet_after_storm = 1"
    "base_oxygen planet_after_storm = 21" "clock_reads still_world = 0"
    by (simp_all add: planet_after_storm_def apply_event_def earth_like_def new_planet_def
        still_world_def)
  have flag: "heat_wave_active\<lparr>effects_applied := True\<rparr> = heat_wave_active"
    by (simp add: heat_wave_active_def)
  have tot: "continuous_step (clock still_world) (Suc (Suc 0)) ''temperature_modifier'' heat_wave_active = 10 * 0.001"
    "continuous_step (clock still_world) (Suc (Suc 0)) ''pressure_modifier'' heat_wave_active = 0"
    "continuous_step (clock still_world) (Suc (Suc 0)) ''oxygen_modifier'' heat_wave_active = 0"
    by (simp_all add: continuous_step_def example_defs dict_get_def lookup_def)
  from update_effects_independent_of_dt [OF r, of 2] r ex evs show ?thesis
    by (simp add: evs rem tb base flag tot)
qed

section \<open>One-shot effects are applied once\<close>

lemma applied_again:
  assumes "effects_applied ae"
  shows "\<exists>w' p'. apply_effects w ae p r = Inr (w', ae, p', r) \<and> buildings p' = buildings p
      \<and> rand_draws w' = rand_draws w"
proof -
  obtain w2 p2 where c: "continuous_effects w ae p = (w2, p2)"
    by (cases "continuous_effects w ae p")
  from continuous_effects_eq [OF c] c assms show ?thesis
    by (simp add: apply_effects_def one_shot_effects_def and_then_def)
qed

lemma applied_again_instant:
  assumes "effects_applied ae" "duration ae = 0"
  shows "apply_effects w ae p r = Inr (w, ae, p, r)"
  using assms by (simp add: apply_effects_def one_shot_effects_def and_then_def continuous_effects_def)

lemma applied_times_instant:
  assumes "effects_applied ae" "duration ae = 0"
  shows "apply_effects_times n w ae p r = Inr (w, ae, p, r)"
  by (induction n) (simp_all add: applied_again_instant [OF assms] and_then_def)

lemma credits_after_add:
  "0 \<le> credits rm \<Longrightarrow> 0 \<le> v \<Longrightarrow> credits (add_resources rm [(''credits'', v)]) = credits rm + v"
  "0 \<le> credits rm \<Longrightarrow> credits (add_resources rm [(''energy'', v)]) = credits rm"
  "0 \<le> credits rm \<Longrightarrow> credits (add_resources rm [(''science'', v)]) = credits rm"
  by (simp_all add: add_resources_def dict_get_def lookup_def Let_def)

lemma credits_after_spend:
  "credits (snd (spend_resources rm [(''energy'', v)])) = credits rm"
  by (simp add: spend_resources_def dict_get_def lookup_def)

lemma one_shot_resources_manager:
  "\<exists>rm'. one_shot_resources effs (ResourceManagerObj rm) = Inr (ResourceManagerObj rm')"
  by (simp add: one_shot_resources_def when_in_def and_then_def obj_add_resources_def
      obj_spend_resources_def split: option.splits)

lemma one_shot_resources_bonus:
  assumes "lookup effs ''credits_bonus'' = Some 50" "lookup effs ''credits_cost'' = None"
    "0 \<le> credits rm"
  shows "\<exists>rm'. one_shot_resources effs (ResourceManagerObj rm) = Inr (ResourceManagerObj rm')
     \<and> credits rm' = credits rm + 50"
  using assms
  by (simp add: one_shot_resources_def when_in_def and_then_def obj_add_resources_def
      obj_spend_resources_def credits_after_add credits_after_spend split: option.splits)

lemma first_application:
  assumes "\<not> effects_applied ae" "duration ae = 0"
    "lookup (effects (event ae)) ''credits_bonus'' = Some 50"
    "lookup (effects (event ae)) ''credits_cost'' = None" "0 \<le> credits rm"
  shows "\<exists>w' p' rm'. apply_effects w ae p (ResourceManagerObj rm)
        = Inr (w', ae\<lparr>effects_applied := True\<rparr>, p', ResourceManagerObj rm')
     \<and> credits rm' = credits rm + 50"
proof -
  from one_shot_resources_bonus [OF assms(3-5)] obtain rm' where
    a: "one_shot_resources (effects (event ae)) (ResourceManagerObj rm) = Inr (ResourceManagerObj rm')"
    and b: "credits rm' = credits rm + 50" by blast
  show ?thesis using assms(1,2) a b
    by (auto simp: apply_effects_def one_shot_effects_def and_then_def continuous_effects_def
        split: option.splits prod.splits)
qed

text \<open>
  Claim C8. The one-shot effects of an active event are applied at most once. Every call of
  \<^verbatim>\<open>apply_effects\<close> that returns leaves \<^verbatim>\<open>effects_applied\<close> true, and no call resets it. A
  call on an event whose flag is already true returns the event and the second argument
  (the resources) as they were, leaves the buildings as they were and draws no random
  number: only the continuous block may run. In particular an instantaneous event
  (duration 0) with a \<^verbatim>\<open>credits_bonus\<close> of 50 and no \<^verbatim>\<open>credits_cost\<close>, applied \<open>n + 1\<close>
  times to a manager with non-negative credits, adds exactly 50 credits in total, and is
  expired afterwards.
\<close>

theorem one_shot_effects_applied_once:
  "(apply_effects w ae p r = Inr (w1, ae1, p1, r1) \<longrightarrow> effects_applied ae1)
   \<and> (effects_applied ae \<longrightarrow>
        (\<exists>w' p'. apply_effects w ae p r = Inr (w', ae, p', r) \<and> buildings p' = buildings p
           \<and> rand_draws w' = rand_draws w))
   \<and> (duration ae = 0 \<and> \<not> effects_applied ae
        \<and> lookup (effects (event ae)) ''credits_bonus'' = Some 50
        \<and> lookup (effects (event ae)) ''credits_cost'' = None \<and> 0 \<le> credits rm \<longrightarrow>
        (\<exists>w' ae' p' rm'. apply_effects_times (Suc n) w ae p (ResourceManagerObj rm)
              = Inr (w', ae', p', ResourceManagerObj rm')
           \<and> credits rm' = credits rm + 50 \<and> effects_applied ae'
           \<and> is_expired w' ae' = (True, w')))"
proof (intro conjI impI)
  assume "apply_effects w ae p r = Inr (w1, ae1, p1, r1)"
  from apply_effects_Inr [OF this] show "effects_applied ae1" by simp
next
  assume "effects_applied ae"
  then show "\<exists>w' p'. apply_effects w ae p r = Inr (w', ae, p', r) \<and> buildings p' = buildings p
           \<and> rand_draws w' = rand_draws w"
    by (rule applied_again)
next
  assume h: "duration ae = 0 \<and> \<not> effects_applied ae
        \<and> lookup (effects (event ae)) ''credits_bonus'' = Some 50
        \<and> lookup (effects (event ae)) ''credits_cost'' = None \<and> 0 \<le> credits rm"
  then obtain w' p' rm' where
    a: "apply_effects w ae p (ResourceManagerObj rm)
          = Inr (w', ae\<lparr>effects_applied := True\<rparr>, p', ResourceManagerObj rm')"
    and b: "credits rm' = credits rm + 50"
    using first_application [of ae rm w p] by blast
  have "apply_effects_times n w' (ae\<lparr>effects_applied := True\<rparr>) p' (ResourceManagerObj rm')
      = Inr (w', ae\<lparr>effects_applied := True\<rparr>, p', ResourceManagerObj rm')"
    using h by (intro applied_times_instant) simp_all
  then have "apply_effects_times (Suc n) w ae p (ResourceManagerObj rm)
      = Inr (w', ae\<lparr>effects_applied := True\<rparr>, p', ResourceManagerObj rm')"
    using a by (simp add: and_then_def)
  moreover have "is_expired w' (ae\<lparr>effects_applied := True\<rparr>) = (True, w')"
    using h by (simp add: is_expired_def)
  ultimately show "\<exists>w' ae' p' rm'. apply_effects_times (Suc n) w ae p (ResourceManagerObj rm)
              = Inr (w', ae', p', ResourceManagerObj rm')
           \<and> credits rm' = credits rm + 50 \<and> effects_applied ae'
           \<and> is_expired w' ae' = (True, w')"
    using b by auto
qed

theorem one_shot_effects_applied_once_witness:
  "(\<exists>w' ae' p' rm'. apply_effects_times (Suc 2) still_world windfall_active earth_like
         (ResourceManagerObj new_resource_manager) = Inr (w', ae', p', ResourceManagerObj rm')
      \<and> credits rm' = 1050 \<and> effects_applied ae' \<and> is_expired w' ae' = (True, w'))
   \<and> (\<exists>w' p'. apply_effects still_world heat_wave_active planet_in_heat_wave
         (ResourceManagerObj new_resource_manager)
           = Inr (w', heat_wave_active, p', ResourceManagerObj new_resource_manager)
      \<and> buildings p' = buildings planet_in_heat_wave
      \<and> rand_draws w' = rand_draws still_world)"
proof -
  have h: "duration windfall_active = 0 \<and> \<not> effects_applied windfall_active
        \<and> lookup (effects (event windfall_active)) ''credits_bonus'' = Some 50
        \<and> lookup (effects (event windfall_active)) ''credits_cost'' = None
        \<and> 0 \<le> credits new_resource_manager"
    by (simp add: windfall_active_def windfall_def lookup_def new_resource_manager_def
        INITIAL_CREDITS_def)
  have c: "credits new_resource_manager = 1000"
    by (simp add: new_resource_manager_def INITIAL_CREDITS_def)
  have f: "effects_applied heat_wave_active" by (simp add: heat_wave_active_def)
  have A: "\<exists>w' ae' p' rm'. apply_effects_times (Suc 2) still_world windfall_active earth_like
         (ResourceManagerObj new_resource_manager) = Inr (w', ae', p', ResourceManagerObj rm')
      \<and> credits rm' = credits new_resource_manager + 50 \<and> effects_applied ae'
      \<and> is_expired w' ae' = (True, w')"
    using one_shot_effects_applied_once [of still_world windfall_active earth_like
        "ResourceManagerObj new_resource_manager" still_world windfall_active earth_like
        "ResourceManagerObj new_resource_manager" new_resource_manager 2] h
    by blast
  have B: "\<exists>w' p'. apply_effects still_world heat_wave_active planet_in_heat_wave
         (ResourceManagerObj new_resource_manager)
           = Inr (w', heat_wave_active, p', ResourceManagerObj new_resource_manager)
      \<and> buildings p' = buildings planet_in_heat_wave
      \<and> rand_draws w' = rand_draws still_world"
    using one_shot_effects_applied_once [of still_world heat_wave_active planet_in_heat_wave
        "ResourceManagerObj new_resource_manager" still_world heat_wave_active planet_in_heat_wave
        "ResourceManagerObj new_resource_manager" new_resource_manager 0] f
    by blast
  from A c have "\<exists>w' ae' p' rm'. apply_effects_times (Suc 2) still_world windfall_active earth_like
         (ResourceManagerObj new_resource_manager) = Inr (w', ae', p', ResourceManagerObj rm')
      \<and> credits rm' = 1050 \<and> effects_applied ae' \<and> is_expired w' ae' = (True, w')"
    by simp
  with B show ?thesis by blast
qed

section \<open>Snapshots and research\<close>

lemma keys_modify: "keys (modify k f d) = keys d"
  by (induction d) (auto simp: keys_def)

lemma keys_store: "keys (store k v d) = (if k \<in> set (keys d) then keys d else keys d @ [k])"
  by (induction d) (force simp: keys_def)+

lemma distinct_store: "distinct (keys d) \<Longrightarrow> distinct (keys (store k v d))"
  by (simp add: keys_store)

lemma distinct_fold_store:
  "distinct (keys acc) \<Longrightarrow> distinct (keys (fold (\<lambda>(k, x) ts. store k (F k x) ts) xs acc))"
  by (induction xs arbitrary: acc) (auto simp: distinct_store)

lemma keys_update_availability: "keys (technologies (update_availability tr)) = keys (technologies tr)"
  by (simp add: update_availability_def keys_def comp_def case_prod_beta)

lemma distinct_new_tree: "distinct (keys (technologies (new_technology_tree tech_file)))"
  using distinct_fold_store [of "[]" new_technology tech_file]
  by (simp add: new_technology_tree_def keys_update_availability) (simp add: keys_def)

lemma keys_progress_table: "keys (progress_table ts) = keys ts"
  by (simp add: progress_table_def keys_def comp_def case_prod_beta)

lemma lookup_None_keys: "lookup d k = None \<longleftrightarrow> k \<notin> set (keys d)"
  by (simp add: lookup_def keys_def map_of_eq_None_iff)

lemma progress_modify:
  "distinct (keys d) \<Longrightarrow>
     progress_table (modify k (\<lambda>t. t\<lparr>tech_progress := v\<rparr>) d)
       = map (\<lambda>(k', pr). (k', if k' = k then v else pr)) (progress_table d)"
proof (induction d)
  case Nil
  show ?case by (simp add: progress_table_def)
next
  case (Cons a d)
  obtain k' t where a: "a = (k', t)" by (cases a)
  show ?case
  proof (cases "k' = k")
    case True
    then have "k \<notin> set (keys d)" using Cons.prems a by (simp add: keys_def)
    then have "map (\<lambda>(k', pr). (k', if k' = k then v else pr)) (progress_table d) = progress_table d"
      by (induction d) (auto simp: progress_table_def keys_def)
    then show ?thesis using True a by (simp add: progress_table_def)
  next
    case False
    then show ?thesis using Cons a by (simp add: progress_table_def keys_def)
  qed
qed

lemma progress_restore:
  assumes "distinct (keys d)"
  shows "progress_table (restore_progress (k, v) d)
       = map (\<lambda>(k', pr). (k', if k' = k then v else pr)) (progress_table d)"
proof (cases "lookup d k = None")
  case True
  then have "k \<notin> set (keys d)" by (simp add: lookup_None_keys)
  then have "map (\<lambda>(k', pr). (k', if k' = k then v else pr)) (progress_table d) = progress_table d"
    by (induction d) (auto simp: progress_table_def keys_def)
  then show ?thesis using True by (simp add: restore_progress_def)
next
  case False
  then show ?thesis using progress_modify [OF assms] by (simp add: restore_progress_def)
qed

lemma keys_restore: "keys (restore_progress item d) = keys d"
  by (simp add: restore_progress_def keys_modify)

lemma progress_fold_restore:
  "distinct (keys d) \<Longrightarrow> distinct (map fst items) \<Longrightarrow>
     progress_table (fold restore_progress items d)
       = map (\<lambda>(k, pr). (k, case map_of items k of None \<Rightarrow> pr | Some v \<Rightarrow> v)) (progress_table d)"
proof (induction items arbitrary: d)
  case Nil
  show ?case by (simp add: case_prod_beta)
next
  case (Cons a items)
  obtain k v where a: "a = (k, v)" by (cases a)
  have dk: "distinct (keys (restore_progress (k, v) d))" using Cons.prems(1) by (simp add: keys_restore)
  have none: "map_of items k = None" using Cons.prems(2) a by (simp add: map_of_eq_None_iff)
  have "progress_table (fold restore_progress (a # items) d)
      = map (\<lambda>(k', pr). (k', case map_of items k' of None \<Rightarrow> pr | Some v \<Rightarrow> v))
          (progress_table (restore_progress (k, v) d))"
    using Cons.IH [OF dk] Cons.prems(2) a by simp
  also have "\<dots> = map (\<lambda>(k', pr). (k', case map_of items k' of None \<Rightarrow> pr | Some v \<Rightarrow> v))
          (map (\<lambda>(k', pr). (k', if k' = k then v else pr)) (progress_table d))"
    by (simp only: progress_restore [OF Cons.prems(1)])
  also have "\<dots> = map (\<lambda>(k', pr). (k', case map_of (a # items) k' of None \<Rightarrow> pr | Some v \<Rightarrow> v))
          (progress_table d)"
    using none a by (auto simp: case_prod_beta)
  finally show ?case .
qed

lemma map_of_self:
  assumes "distinct (map fst items)"
  shows "map (\<lambda>(k, pr). (k, case map_of items k of None \<Rightarrow> pr | Some v \<Rightarrow> v)) items = items"
proof (rule map_idI)
  fix x assume "x \<in> set items"
  then have "map_of items (fst x) = Some (snd x)"
    using map_of_is_SomeI [OF assms, of "fst x" "snd x"] by simp
  then show "(case x of (k, pr) \<Rightarrow> (k, case map_of items k of None \<Rightarrow> pr | Some v \<Rightarrow> v)) = x"
    by (cases x) simp
qed

lemma progress_fold_same_keys:
  assumes "distinct (keys d)" "keys d = map fst items"
  shows "progress_table (fold restore_progress items d) = items"
proof -
  have di: "distinct (map fst items)" using assms by simp
  let ?F = "\<lambda>(k, pr). (k, case map_of items k of None \<Rightarrow> pr | Some v \<Rightarrow> (v::real))"
  let ?G = "\<lambda>k. (k, the (map_of items k))"
  have known: "\<exists>v. map_of items k = Some v" if "k \<in> set (map fst items)" for k :: string
    using that by (cases "map_of items k") (auto simp: map_of_eq_None_iff)
  have "map ?F (progress_table d) = map ?G (map fst (progress_table d))"
  proof -
    have "map ?F (progress_table d) = map (?G \<circ> fst) (progress_table d)"
    proof (rule map_cong [OF refl])
      fix x assume "x \<in> set (progress_table d)"
      then have "fst x \<in> set (keys (progress_table d))" by (simp add: keys_def)
      then have "fst x \<in> set (map fst items)" using assms(2) by (simp add: keys_progress_table)
      from known [OF this] show "?F x = (?G \<circ> fst) x" by (cases x) auto
    qed
    then show ?thesis by simp
  qed
  also have "map fst (progress_table d) = map fst items"
    using assms(2) keys_progress_table [of d] by (simp add: keys_def)
  also have "map ?G (map fst items) = map ?F items"
  proof -
    have "map ?F items = map (?G \<circ> fst) items"
    proof (rule map_cong [OF refl])
      fix x assume "x \<in> set items"
      then have "fst x \<in> set (map fst items)" by simp
      from known [OF this] show "?F x = (?G \<circ> fst) x" by (cases x) auto
    qed
    then show ?thesis by simp
  qed
  also have "\<dots> = items" by (rule map_of_self [OF di])
  finally show ?thesis using progress_fold_restore [OF assms(1) di] by simp
qed

lemma progress_update_availability:
  "progress_table (technologies (update_availability tr)) = progress_table (technologies tr)"
  by (simp add: update_availability_def progress_table_def case_prod_beta)

lemma tree_to_dict_fields:
  "ts_researched_technologies (tree_to_dict tr) = Some (researched_technologies tr)"
  "ts_current_research (tree_to_dict tr) = current_research tr"
  "ts_research_progress (tree_to_dict tr) = Some (research_progress tr)"
  "ts_technology_progress (tree_to_dict tr) = Some (progress_table (technologies tr))"
  by (simp_all add: tree_to_dict_def progress_table_def)

lemma tree_round_trip:
  assumes "keys (technologies tr) = keys (technologies (new_technology_tree tech_file))"
  shows "researched_technologies (tree_from_dict tech_file (tree_to_dict tr)) = researched_technologies tr"
    and "current_research (tree_from_dict tech_file (tree_to_dict tr)) = current_research tr"
    and "research_progress (tree_from_dict tech_file (tree_to_dict tr)) = research_progress tr"
    and "progress_table (technologies (tree_from_dict tech_file (tree_to_dict tr)))
           = progress_table (technologies tr)"
proof -
  show "researched_technologies (tree_from_dict tech_file (tree_to_dict tr)) = researched_technologies tr"
    by (simp add: tree_from_dict_def tree_to_dict_def update_availability_def Let_def)
  show "current_research (tree_from_dict tech_file (tree_to_dict tr)) = current_research tr"
    by (simp add: tree_from_dict_def tree_to_dict_def update_availability_def Let_def)
  show "research_progress (tree_from_dict tech_file (tree_to_dict tr)) = research_progress tr"
    by (simp add: tree_from_dict_def tree_to_dict_def update_availability_def Let_def)
  let ?ts1 = "map (\<lambda>(tid, tech). (tid, if tid \<in> researched_technologies tr then tech\<lparr>is_researched := True\<rparr> else tech))
                    (technologies (new_technology_tree tech_file))"
  have k1: "keys ?ts1 = keys (technologies (new_technology_tree tech_file))"
    by (simp add: keys_def comp_def case_prod_beta)
  have d1: "distinct (keys ?ts1)" using distinct_new_tree [of tech_file] k1 by simp
  have e1: "keys ?ts1 = map fst (progress_table (technologies tr))"
    using k1 assms keys_progress_table [of "technologies tr"] by (simp add: keys_def)
  have "progress_table (fold restore_progress (progress_table (technologies tr)) ?ts1)
      = progress_table (technologies tr)"
    by (rule progress_fold_same_keys [OF d1 e1])
  then show "progress_table (technologies (tree_from_dict tech_file (tree_to_dict tr)))
           = progress_table (technologies tr)"
    by (simp add: tree_from_dict_def tree_to_dict_fields Let_def progress_update_availability)
qed

lemma planet_round_trip:
  "\<exists>p'. planet_from_dict (planet_to_dict p) pd = Inr p' \<and> buildings p' = buildings p
     \<and> name p' = name p \<and> temperature p' = temperature p \<and> pressure p' = pressure p
     \<and> oxygen p' = oxygen p \<and> history p' = history p"
  by (simp add: planet_from_dict_def planet_to_dict_def Let_def update_modifiers_frame
      new_planet_def)

lemma resources_round_trip:
  "credits (resources_from_dict (resources_to_dict rm)) = credits rm
   \<and> energy (resources_from_dict (resources_to_dict rm)) = energy rm
   \<and> science (resources_from_dict (resources_to_dict rm)) = science rm
   \<and> max_energy (resources_from_dict (resources_to_dict rm)) = max_energy rm
   \<and> max_science (resources_from_dict (resources_to_dict rm)) = max_science rm
   \<and> res_history (resources_from_dict (resources_to_dict rm)) = res_history rm"
  by (simp add: resources_from_dict_def resources_to_dict_def Let_def)

lemmas tree_defs = new_technology_tree_def sample_tech_file_def new_technology_def
  update_availability_def start_research_def update_research_def complete_research_def
  truthy_def lookup_def dict_get_def and_then_def Let_def

lemma free_energy_tree_reached:
  "start_research (new_technology_tree sample_tech_file) ''free_energy'' = Inr (True, free_energy_tree)"
  by (simp add: free_energy_tree_def tree_defs)

text \<open>
  Claim C1 does not hold of the code. A technology whose cost mapping lacks \<^verbatim>\<open>science\<close> is
  given the default 100, but a technology whose cost mapping has \<^verbatim>\<open>science\<close> equal to 0
  keeps the 0, and the division raises. The technology \<open>free_energy\<close> has no
  prerequisite, so \<^verbatim>\<open>start_research\<close> accepts it on a fresh tree (the lemma above); the
  next \<^verbatim>\<open>update_research\<close> raises \<^verbatim>\<open>ZeroDivisionError\<close>, for a positive and for a zero
  science rate.
\<close>

theorem update_research_zero_cost_raises:
  "update_research free_energy_tree 2 1 = Inl ZeroDivisionError
   \<and> update_research free_energy_tree 0 1 = Inl ZeroDivisionError"
  by (simp add: free_energy_tree_def tree_defs)

lemma solar_power_tree_reached:
  "start_research (new_technology_tree sample_tech_file) ''solar_power''
     = Inr (True, solar_power_tree\<lparr>technologies := modify ''solar_power'' (\<lambda>t. t\<lparr>tech_progress := 0\<rparr>)
                          (technologies (new_technology_tree sample_tech_file)), research_progress := 0\<rparr>)
   \<and> update_research (solar_power_tree\<lparr>technologies := modify ''solar_power'' (\<lambda>t. t\<lparr>tech_progress := 0\<rparr>)
                          (technologies (new_technology_tree sample_tech_file)), research_progress := 0\<rparr>) 2 10
     = Inr solar_power_tree"
  by (simp add: solar_power_tree_def tree_defs)

text \<open>
  Claim C6. \<^verbatim>\<open>to_dict\<close> followed by \<^verbatim>\<open>from_dict\<close> gives back the same buildings mapping
  (with the name, the current temperature, pressure and oxygen and the history) of a
  planet, the same credits, energy and science of a resource manager, and for a tree the
  same researched set, current research, tree progress and progress of every technology.
  \<^verbatim>\<open>TechnologyTree.from_dict\<close> reads the technology file again: the tree part is stated for
  a tree whose technology ids are the ids of the file that \<^verbatim>\<open>from_dict\<close> reads.
\<close>

theorem snapshot_round_trip:
  "(\<exists>p'. planet_from_dict (planet_to_dict p) pd = Inr p' \<and> buildings p' = buildings p
       \<and> name p' = name p \<and> temperature p' = temperature p \<and> pressure p' = pressure p
       \<and> oxygen p' = oxygen p \<and> history p' = history p)
   \<and> credits (resources_from_dict (resources_to_dict rm)) = credits rm
   \<and> energy (resources_from_dict (resources_to_dict rm)) = energy rm
   \<and> science (resources_from_dict (resources_to_dict rm)) = science rm
   \<and> (keys (technologies tr) = keys (technologies (new_technology_tree tech_file)) \<longrightarrow>
        researched_technologies (tree_from_dict tech_file (tree_to_dict tr)) = researched_technologies tr
      \<and> current_research (tree_from_dict tech_file (tree_to_dict tr)) = current_research tr
      \<and> research_progress (tree_from_dict tech_file (tree_to_dict tr)) = research_progress tr
      \<and> progress_table (technologies (tree_from_dict tech_file (tree_to_dict tr)))
           = progress_table (technologies tr))"
  using planet_round_trip [of p pd] resources_round_trip [of rm] tree_round_trip [of tr tech_file]
  by blast

theorem snapshot_round_trip_witness:
  "keys (technologies solar_power_tree) = keys (technologies (new_technology_tree sample_tech_file))
   \<and> researched_technologies (tree_from_dict sample_tech_file (tree_to_dict solar_power_tree)) = {}
   \<and> current_research (tree_from_dict sample_tech_file (tree_to_dict solar_power_tree)) = Some ''solar_power''
   \<and> research_progress (tree_from_dict sample_tech_file (tree_to_dict solar_power_tree)) = 20
   \<and> progress_table (technologies (tree_from_dict sample_tech_file (tree_to_dict solar_power_tree)))
        = [(''solar_power'', 20), (''free_energy'', 0), (''fusion'', 0)]"
proof -
  have k: "keys (technologies solar_power_tree) = keys (technologies (new_technology_tree sample_tech_file))"
    by (simp add: solar_power_tree_def keys_modify)
  have v: "researched_technologies solar_power_tree = {}"
    "current_research solar_power_tree = Some ''solar_power''"
    "research_progress solar_power_tree = 20"
    "progress_table (technologies solar_power_tree)
        = [(''solar_power'', 20), (''free_energy'', 0), (''fusion'', 0)]"
    by (simp_all add: solar_power_tree_def progress_table_def tree_defs)
  from snapshot_round_trip [of _ _ _ solar_power_tree sample_tech_file] k v
  show ?thesis by simp
qed

text \<open>
  Claim C9. \<^verbatim>\<open>Planet.from_dict\<close> applied to a snapshot of \<^verbatim>\<open>Planet.to_dict\<close> returns a planet
  whose base values are the initial values of the planet template (0 where the template
  has none) and whose list of active events is empty. The base values stored in the
  snapshot are not read: any other three values in their place give the same planet.
\<close>

theorem from_dict_resets_base_values:
  "\<exists>p'. planet_from_dict (planet_to_dict p) pd = Inr p'
     \<and> base_temperature p' = (case initial_temperature pd of None \<Rightarrow> 0 | Some v \<Rightarrow> v)
     \<and> base_pressure p' = (case initial_pressure pd of None \<Rightarrow> 0 | Some v \<Rightarrow> v)
     \<and> base_oxygen p' = (case initial_oxygen pd of None \<Rightarrow> 0 | Some v \<Rightarrow> v)
     \<and> active_events p' = []
     \<and> planet_from_dict ((planet_to_dict p)\<lparr>s_base_temperature := x, s_base_pressure := y,
          s_base_oxygen := z\<rparr>) pd = Inr p'"
  by (simp add: planet_from_dict_def planet_to_dict_def Let_def update_modifiers_frame
      new_planet_def)

section \<open>Building with a negative count\<close>

lemma building_costs_entries:
  assumes "lookup building_costs bt = Some base_cost"
  shows "0 < dict_get base_cost ''credits'' 0 \<and> 0 < dict_get base_cost ''energy'' 0
     \<and> dict_get base_cost ''science'' 0 = 0"
  using assms
  by (auto simp: building_costs_def lookup_def dict_get_def split: if_splits)

lemma dict_get_scaled:
  "dict_get (map (\<lambda>(resource, c). (resource, c * x)) d) k 0 = dict_get d k 0 * (x::real)"
  by (induction d) (auto simp: dict_get_def lookup_def)

lemma lookup_store_same: "lookup (store k v d) k = Some v"
  by (induction d) (auto simp: lookup_def)

lemma lookup_add_building:
  "lookup (buildings (add_building p bt n)) bt
     = Some ((case lookup (buildings p) bt of None \<Rightarrow> 0 | Some c \<Rightarrow> c) + n)"
  by (cases "lookup (buildings p) bt")
     (simp_all add: add_building_def Let_def update_modifiers_frame lookup_store_same)

text \<open>
  Claim C10. With a planet selected, the building type unlocked and priced, and stocks
  that are not negative, \<^verbatim>\<open>build_structure\<close> with a negative count returns true: the cost
  scaled by the count is negative, so it passes \<^verbatim>\<open>can_afford\<close>; \<^verbatim>\<open>spend_resources\<close> subtracts
  the negative amounts, so credits and energy grow, and energy is not clamped to
  \<^verbatim>\<open>max_energy\<close>; \<^verbatim>\<open>add_building\<close> adds the negative count to the entry of the type, which
  stays in the mapping (a type not built before gets the negative count itself).
\<close>

theorem build_structure_negative_count:
  assumes "current_planet eng = Some p"
    and "is_building_unlocked (technology_tree eng) bt"
    and "lookup building_costs bt = Some base_cost"
    and "n < 0"
    and "0 \<le> credits (resource_manager eng)" "0 \<le> energy (resource_manager eng)"
      "0 \<le> science (resource_manager eng)"
  shows "\<exists>eng' p'. build_structure eng bt n = (True, eng') \<and> current_planet eng' = Some p'
     \<and> credits (resource_manager eng')
          = credits (resource_manager eng) - dict_get base_cost ''credits'' 0 * of_int n
     \<and> credits (resource_manager eng') > credits (resource_manager eng)
     \<and> energy (resource_manager eng')
          = energy (resource_manager eng) - dict_get base_cost ''energy'' 0 * of_int n
     \<and> energy (resource_manager eng') > energy (resource_manager eng)
     \<and> max_energy (resource_manager eng') = max_energy (resource_manager eng)
     \<and> lookup (buildings p') bt
          = Some ((case lookup (buildings p) bt of None \<Rightarrow> 0 | Some c \<Rightarrow> c) + n)
     \<and> (lookup (buildings p) bt = None \<longrightarrow> lookup (buildings p') bt = Some n)"
proof -
  let ?rm = "resource_manager eng"
  let ?total = "map (\<lambda>(resource, c). (resource, c * of_int n)) base_cost"
  note costs = building_costs_entries [OF assms(3)]
  have neg: "real_of_int n < 0" using assms(4) by simp
  have c: "dict_get base_cost ''credits'' 0 * of_int n < 0"
    and e: "dict_get base_cost ''energy'' 0 * of_int n < 0"
    using costs neg by (simp_all add: mult_pos_neg)
  have afford: "can_afford ?rm ?total"
    using c e costs assms(5-7) by (simp add: can_afford_def dict_get_scaled)
  have spend: "spend_resources ?rm ?total =
      (True, ?rm\<lparr>credits := credits ?rm - dict_get base_cost ''credits'' 0 * of_int n,
                 energy := energy ?rm - dict_get base_cost ''energy'' 0 * of_int n,
                 science := science ?rm - dict_get base_cost ''science'' 0 * of_int n\<rparr>)"
    using afford by (simp add: spend_resources_def dict_get_scaled)
  have "build_structure eng bt n =
      (True, eng\<lparr>current_planet := Some (add_building p bt n),
                 resource_manager := ?rm\<lparr>credits := credits ?rm - dict_get base_cost ''credits'' 0 * of_int n,
                     energy := energy ?rm - dict_get base_cost ''energy'' 0 * of_int n,
                     science := science ?rm - dict_get base_cost ''science'' 0 * of_int n\<rparr>,
                 buildings_built := buildings_built eng + n\<rparr>)"
    using assms(1-3) spend by (simp add: build_structure_def)
  then show ?thesis using c e lookup_add_building [of p bt n] by simp
qed

theorem build_structure_negative_count_witness:
  "\<exists>eng' p'. build_structure full_energy_engine ''solar_panel'' (- 1) = (True, eng')
     \<and> current_planet eng' = Some p'
     \<and> credits (resource_manager eng') = 1100
     \<and> energy (resource_manager eng') = 1010
     \<and> max_energy (resource_manager eng') = 1000
     \<and> lookup (buildings p') ''solar_panel'' = Some (- 1)"
proof -
  have h1: "current_planet full_energy_engine = Some earth_like"
    by (simp add: full_energy_engine_def)
  have h2: "is_building_unlocked (technology_tree full_energy_engine) ''solar_panel''"
    by (simp add: full_energy_engine_def solar_researched_tree_def is_building_unlocked_def
        get_unlocked_buildings_def get_researched_technologies_def values_of_def tree_defs)
  have h3: "lookup building_costs ''solar_panel'' = Some [(''credits'', 100), (''energy'', 10)]"
    by (simp add: building_costs_def lookup_def)
  have h4: "(- 1 :: int) < 0" by simp
  have h5: "0 \<le> credits (resource_manager full_energy_engine)"
    "0 \<le> energy (resource_manager full_energy_engine)"
    "0 \<le> science (resource_manager full_energy_engine)"
    by (simp_all add: full_energy_engine_def new_resource_manager_def INITIAL_CREDITS_def
        INITIAL_SCIENCE_def)
  have v: "credits (resource_manager full_energy_engine) = 1000"
    "energy (resource_manager full_energy_engine) = 1000"
    "max_energy (resource_manager full_energy_engine) = 1000"
    "lookup (buildings earth_like) ''solar_panel'' = None"
    by (simp_all add: full_energy_engine_def new_resource_manager_def INITIAL_CREDITS_def
        earth_like_def new_planet_def lookup_def)
  from build_structure_negative_count [OF h1 h2 h3 h4 h5] v
  show ?thesis by (simp add: dict_get_def lookup_def) blast
qed

section \<open>The periodic event check\<close>

lemma check_event_requirements_iff:
  "check_event_requirements ev p rm \<longleftrightarrow>
     (\<forall>v. min_buildings (requirements ev) = Some v \<longrightarrow> v \<le> of_int (sum_list (values_of (buildings p))))
   \<and> (\<forall>names. planets (requirements ev) = Some names \<longrightarrow> name p \<in> set names)
   \<and> (\<forall>v. min_habitability (requirements ev) = Some v \<longrightarrow> v \<le> calculate_habitability p)
   \<and> (\<forall>v. min_science (requirements ev) = Some v \<longrightarrow> v \<le> science rm)
   \<and> (\<forall>v. min_research_labs (requirements ev) = Some v \<longrightarrow>
          v \<le> of_int (dict_get (buildings p) ''research_lab'' 0))
   \<and> (\<forall>v. min_mining_facilities (requirements ev) = Some v \<longrightarrow>
          v \<le> of_int (dict_get (buildings p) ''mining_facility'' 0))
   \<and> (\<forall>v. min_pressure (requirements ev) = Some v \<longrightarrow> v \<le> pressure p)"
  by (auto simp: check_event_requirements_def Let_def not_less split: option.splits)

lemma habitability_events:
  "calculate_habitability (p\<lparr>active_events := aes\<rparr>) = calculate_habitability p"
  by (simp add: calculate_habitability_def)

lemma check_event_requirements_events:
  "check_event_requirements ev (p\<lparr>active_events := aes\<rparr>) rm = check_event_requirements ev p rm"
  by (simp add: check_event_requirements_iff habitability_events)

lemma check_templates_sound:
  assumes "\<forall>t\<in>set ts. lookup (event_templates em) (event_id t) = Some t"
    and "check_templates em ts w p rm = (w', p')"
  shows "\<exists>new. p' = p\<lparr>active_events := active_events p @ new\<rparr>
     \<and> rand w' = rand w
     \<and> distinct (map (\<lambda>ae. event_id (event ae)) new)
     \<and> (\<forall>ae\<in>set new. \<exists>i<length ts. event ae = ts ! i
           \<and> rand w (rand_draws w + i) \<le> probability (ts ! i)
           \<and> check_event_requirements (ts ! i) p rm
           \<and> event_id (ts ! i) \<notin> ids_on (active_events p)
           \<and> duration ae = event_duration (ts ! i) \<and> \<not> effects_applied ae)"
  using assms
proof (induction ts arbitrary: w p w' p')
  case Nil
  then show ?case by simp
next
  case (Cons t ts)
  let ?w1 = "w\<lparr>rand_draws := Suc (rand_draws w)\<rparr>"
  have look: "\<forall>t\<in>set ts. lookup (event_templates em) (event_id t) = Some t"
    using Cons.prems(1) by simp
  have shift: "\<exists>new. p' = p\<lparr>active_events := active_events p @ new\<rparr>
     \<and> rand w' = rand w
     \<and> distinct (map (\<lambda>ae. event_id (event ae)) new)
     \<and> (\<forall>ae\<in>set new. \<exists>i<length (t # ts). event ae = (t # ts) ! i
           \<and> rand w (rand_draws w + i) \<le> probability ((t # ts) ! i)
           \<and> check_event_requirements ((t # ts) ! i) p rm
           \<and> event_id ((t # ts) ! i) \<notin> ids_on (active_events p)
           \<and> duration ae = event_duration ((t # ts) ! i) \<and> \<not> effects_applied ae)"
    if rest: "check_templates em ts ?w1 p rm = (w', p')"
  proof -
    from Cons.IH [OF look rest] obtain new where n:
      "p' = p\<lparr>active_events := active_events p @ new\<rparr>" "rand w' = rand w"
      "distinct (map (\<lambda>ae. event_id (event ae)) new)"
      "\<forall>ae\<in>set new. \<exists>i<length ts. event ae = ts ! i
           \<and> rand w (Suc (rand_draws w) + i) \<le> probability (ts ! i)
           \<and> check_event_requirements (ts ! i) p rm
           \<and> event_id (ts ! i) \<notin> ids_on (active_events p)
           \<and> duration ae = event_duration (ts ! i) \<and> \<not> effects_applied ae"
      by auto
    have "\<forall>ae\<in>set new. \<exists>i<length (t # ts). event ae = (t # ts) ! i
           \<and> rand w (rand_draws w + i) \<le> probability ((t # ts) ! i)
           \<and> check_event_requirements ((t # ts) ! i) p rm
           \<and> event_id ((t # ts) ! i) \<notin> ids_on (active_events p)
           \<and> duration ae = event_duration ((t # ts) ! i) \<and> \<not> effects_applied ae"
    proof
      fix ae assume "ae \<in> set new"
      with n(4) obtain i where "i < length ts" "event ae = ts ! i"
        "rand w (Suc (rand_draws w) + i) \<le> probability (ts ! i)"
        "check_event_requirements (ts ! i) p rm"
        "event_id (ts ! i) \<notin> ids_on (active_events p)"
        "duration ae = event_duration (ts ! i)" "\<not> effects_applied ae"
        by blast
      then show "\<exists>i<length (t # ts). event ae = (t # ts) ! i
           \<and> rand w (rand_draws w + i) \<le> probability ((t # ts) ! i)
           \<and> check_event_requirements ((t # ts) ! i) p rm
           \<and> event_id ((t # ts) ! i) \<notin> ids_on (active_events p)
           \<and> duration ae = event_duration ((t # ts) ! i) \<and> \<not> effects_applied ae"
        by (intro exI [of _ "Suc i"]) simp
    qed
    with n show ?thesis by blast
  qed
  show ?case
  proof (cases "rand w (rand_draws w) > probability t \<or> \<not> check_event_requirements t p rm
      \<or> list_ex (\<lambda>ae. event_id (event ae) = event_id t) (active_events p)")
    case True
    then have "check_templates em ts ?w1 p rm = (w', p')"
      using Cons.prems(2) by (auto simp: random_random_def split: if_splits)
    then show ?thesis by (rule shift)
  next
    case False
    let ?ae = "\<lparr>event = t, start_time = clock w (clock_reads w), duration = event_duration t,
        effects_applied = False\<rparr>"
    let ?w2 = "?w1\<lparr>clock_reads := Suc (clock_reads w)\<rparr>"
    let ?p2 = "p\<lparr>active_events := active_events p @ [?ae]\<rparr>"
    have lk: "lookup (event_templates em) (event_id t) = Some t" using Cons.prems(1) by simp
    have rest: "check_templates em ts ?w2 ?p2 rm = (w', p')"
      using Cons.prems(2) False lk
      by (simp add: random_random_def trigger_event_def new_active_event_def time_time_def)
    from Cons.IH [OF look rest] obtain new where n:
      "p' = ?p2\<lparr>active_events := active_events ?p2 @ new\<rparr>" "rand w' = rand w"
      "distinct (map (\<lambda>ae. event_id (event ae)) new)"
      "\<forall>ae\<in>set new. \<exists>i<length ts. event ae = ts ! i
           \<and> rand w (Suc (rand_draws w) + i) \<le> probability (ts ! i)
           \<and> check_event_requirements (ts ! i) p rm
           \<and> event_id (ts ! i) \<notin> ids_on (active_events ?p2)
           \<and> duration ae = event_duration (ts ! i) \<and> \<not> effects_applied ae"
      by (auto simp: check_event_requirements_events)
    have fresh: "event_id t \<notin> ids_on (active_events p)"
      using False by (auto simp: ids_on_def list_ex_iff)
    have notin: "event_id t \<notin> set (map (\<lambda>ae. event_id (event ae)) new)"
    proof
      assume "event_id t \<in> set (map (\<lambda>ae. event_id (event ae)) new)"
      then obtain ae where "ae \<in> set new" "event_id (event ae) = event_id t" by auto
      with n(4) show False by (auto simp: ids_on_def)
    qed
    have all: "\<forall>ae\<in>set (?ae # new). \<exists>i<length (t # ts). event ae = (t # ts) ! i
           \<and> rand w (rand_draws w + i) \<le> probability ((t # ts) ! i)
           \<and> check_event_requirements ((t # ts) ! i) p rm
           \<and> event_id ((t # ts) ! i) \<notin> ids_on (active_events p)
           \<and> duration ae = event_duration ((t # ts) ! i) \<and> \<not> effects_applied ae"
    proof
      fix ae assume "ae \<in> set (?ae # new)"
      then consider "ae = ?ae" | "ae \<in> set new" by auto
      then show "\<exists>i<length (t # ts). event ae = (t # ts) ! i
           \<and> rand w (rand_draws w + i) \<le> probability ((t # ts) ! i)
           \<and> check_event_requirements ((t # ts) ! i) p rm
           \<and> event_id ((t # ts) ! i) \<notin> ids_on (active_events p)
           \<and> duration ae = event_duration ((t # ts) ! i) \<and> \<not> effects_applied ae"
      proof cases
        case 1
        then show ?thesis using False fresh by (intro exI [of _ 0]) (simp add: not_less)
      next
        case 2
        with n(4) obtain i where "i < length ts" "event ae = ts ! i"
          "rand w (Suc (rand_draws w) + i) \<le> probability (ts ! i)"
          "check_event_requirements (ts ! i) p rm"
          "event_id (ts ! i) \<notin> ids_on (active_events ?p2)"
          "duration ae = event_duration (ts ! i)" "\<not> effects_applied ae"
          by blast
        then show ?thesis by (intro exI [of _ "Suc i"]) (simp add: ids_on_def)
      qed
    qed
    have "p' = p\<lparr>active_events := active_events p @ (?ae # new)\<rparr>" using n(1) by simp
    moreover have "distinct (map (\<lambda>ae. event_id (event ae)) (?ae # new))"
      using n(3) notin by simp
    ultimately show ?thesis using n(2) all by blast
  qed
qed

lemma templates_lookup:
  assumes "distinct (keys d)" "\<forall>(k, t)\<in>set d. event_id t = k"
  shows "\<forall>t\<in>set (values_of d). lookup d (event_id t) = Some t"
proof
  fix t assume "t \<in> set (values_of d)"
  then obtain k where kt: "(k, t) \<in> set d" by (auto simp: values_of_def)
  then have "event_id t = k" using assms(2) by auto
  moreover have "map_of d k = Some t"
    using assms(1) kt by (simp add: keys_def)
  ultimately show "lookup d (event_id t) = Some t" by (simp add: lookup_def)
qed

lemma low_pressure_fails:
  assumes "pressure p = 0.2" "min_pressure (requirements t) = Some 0.5"
  shows "\<not> check_event_requirements t p rm"
proof
  assume "check_event_requirements t p rm"
  then have "\<forall>v. min_pressure (requirements t) = Some v \<longrightarrow> v \<le> pressure p"
    using check_event_requirements_iff [of t p rm] by blast
  then have "0.5 \<le> pressure p" using assms(2) by blast
  then show False using assms(1) by simp
qed

text \<open>
  Claim C7. The templates of the manager are stored under their own ids, each id once, as
  \<^verbatim>\<open>load_events\<close> stores them. The periodic check only appends to the planet's active
  events. Every appended event is the fresh, not yet applied instance of a template (the
  \<open>i\<close>-th) whose probability roll succeeded (the \<open>i\<close>-th draw of the check is not above its
  probability), whose requirement check passed on the planet and the resources, and whose
  id was on no active event of the planet; the appended events have different ids. The
  requirement check passes exactly when each predicate present in the requirements
  passes. On a planet of pressure 0.2 a template requiring \<^verbatim>\<open>min_pressure\<close> 0.5 fails the
  check, and none of the appended events has that requirement.
\<close>

theorem new_events_only_when_allowed:
  assumes "distinct (keys (event_templates em))"
    and "\<forall>(k, t)\<in>set (event_templates em). event_id t = k"
    and "check_for_new_events em w p rm = (w', p')"
  shows "(\<exists>new. p' = p\<lparr>active_events := active_events p @ new\<rparr>
       \<and> distinct (map (\<lambda>ae. event_id (event ae)) new)
       \<and> (\<forall>ae\<in>set new. \<exists>i<length (event_templates em).
              event ae = snd (event_templates em ! i)
            \<and> rand w (rand_draws w + i) \<le> probability (event ae)
            \<and> check_event_requirements (event ae) p rm
            \<and> event_id (event ae) \<notin> ids_on (active_events p)
            \<and> \<not> effects_applied ae)
       \<and> (pressure p = 0.2 \<longrightarrow>
            (\<forall>ae\<in>set new. min_pressure (requirements (event ae)) \<noteq> Some 0.5)))
   \<and> (check_event_requirements t p rm \<longleftrightarrow>
        (\<forall>v. min_buildings (requirements t) = Some v \<longrightarrow>
               v \<le> of_int (sum_list (values_of (buildings p))))
      \<and> (\<forall>names. planets (requirements t) = Some names \<longrightarrow> name p \<in> set names)
      \<and> (\<forall>v. min_habitability (requirements t) = Some v \<longrightarrow> v \<le> calculate_habitability p)
      \<and> (\<forall>v. min_science (requirements t) = Some v \<longrightarrow> v \<le> science rm)
      \<and> (\<forall>v. min_research_labs (requirements t) = Some v \<longrightarrow>
               v \<le> of_int (dict_get (buildings p) ''research_lab'' 0))
      \<and> (\<forall>v. min_mining_facilities (requirements t) = Some v \<longrightarrow>
               v \<le> of_int (dict_get (buildings p) ''mining_facility'' 0))
      \<and> (\<forall>v. min_pressure (requirements t) = Some v \<longrightarrow> v \<le> pressure p))
   \<and> (pressure p = 0.2 \<and> min_pressure (requirements t) = Some 0.5
        \<longrightarrow> \<not> check_event_requirements t p rm)"
proof (intro conjI)
  let ?ts = "values_of (event_templates em)"
  have run: "check_templates em ?ts w p rm = (w', p')"
    using assms(3) by (simp add: check_for_new_events_def)
  from check_templates_sound [OF templates_lookup [OF assms(1,2)] run]
  obtain new where n: "p' = p\<lparr>active_events := active_events p @ new\<rparr>"
    "distinct (map (\<lambda>ae. event_id (event ae)) new)"
    "\<forall>ae\<in>set new. \<exists>i<length ?ts. event ae = ?ts ! i
           \<and> rand w (rand_draws w + i) \<le> probability (?ts ! i)
           \<and> check_event_requirements (?ts ! i) p rm
           \<and> event_id (?ts ! i) \<notin> ids_on (active_events p)
           \<and> duration ae = event_duration (?ts ! i) \<and> \<not> effects_applied ae"
    by blast
  have each: "\<forall>ae\<in>set new. \<exists>i<length (event_templates em).
              event ae = snd (event_templates em ! i)
            \<and> rand w (rand_draws w + i) \<le> probability (event ae)
            \<and> check_event_requirements (event ae) p rm
            \<and> event_id (event ae) \<notin> ids_on (active_events p)
            \<and> \<not> effects_applied ae"
  proof
    fix ae assume "ae \<in> set new"
    with n(3) obtain i where i: "i < length ?ts" "event ae = ?ts ! i"
      "rand w (rand_draws w + i) \<le> probability (?ts ! i)"
      "check_event_requirements (?ts ! i) p rm"
      "event_id (?ts ! i) \<notin> ids_on (active_events p)" "\<not> effects_applied ae"
      by blast
    then show "\<exists>i<length (event_templates em).
              event ae = snd (event_templates em ! i)
            \<and> rand w (rand_draws w + i) \<le> probability (event ae)
            \<and> check_event_requirements (event ae) p rm
            \<and> event_id (event ae) \<notin> ids_on (active_events p)
            \<and> \<not> effects_applied ae"
      by (intro exI [of _ i]) (simp add: values_of_def)
  qed
  have low: "pressure p = 0.2 \<longrightarrow>
            (\<forall>ae\<in>set new. min_pressure (requirements (event ae)) \<noteq> Some 0.5)"
    using each low_pressure_fails [of p _ rm] by blast
  show "\<exists>new. p' = p\<lparr>active_events := active_events p @ new\<rparr>
       \<and> distinct (map (\<lambda>ae. event_id (event ae)) new)
       \<and> (\<forall>ae\<in>set new. \<exists>i<length (event_templates em).
              event ae = snd (event_templates em ! i)
            \<and> rand w (rand_draws w + i) \<le> probability (event ae)
            \<and> check_event_requirements (event ae) p rm
            \<and> event_id (event ae) \<notin> ids_on (active_events p)
            \<and> \<not> effects_applied ae)
       \<and> (pressure p = 0.2 \<longrightarrow>
            (\<forall>ae\<in>set new. min_pressure (requirements (event ae)) \<noteq> Some 0.5))"
    using n(1,2) each low by blast
next
  show "check_event_requirements t p rm \<longleftrightarrow>
        (\<forall>v. min_buildings (requirements t) = Some v \<longrightarrow>
               v \<le> of_int (sum_list (values_of (buildings p))))
      \<and> (\<forall>names. planets (requirements t) = Some names \<longrightarrow> name p \<in> set names)
      \<and> (\<forall>v. min_habitability (requirements t) = Some v \<longrightarrow> v \<le> calculate_habitability p)
      \<and> (\<forall>v. min_science (requirements t) = Some v \<longrightarrow> v \<le> science rm)
      \<and> (\<forall>v. min_research_labs (requirements t) = Some v \<longrightarrow>
               v \<le> of_int (dict_get (buildings p) ''research_lab'' 0))
      \<and> (\<forall>v. min_mining_facilities (requirements t) = Some v \<longrightarrow>
               v \<le> of_int (dict_get (buildings p) ''mining_facility'' 0))
      \<and> (\<forall>v. min_pressure (requirements t) = Some v \<longrightarrow> v \<le> pressure p)"
    by (rule check_event_requirements_iff)
next
  show "pressure p = 0.2 \<and> min_pressure (requirements t) = Some 0.5
        \<longrightarrow> \<not> check_event_requirements t p rm"
    using low_pressure_fails by blast
qed

theorem new_events_only_when_allowed_witness:
  "check_for_new_events sample_event_manager lucky_world thin_air_planet new_resource_manager
     = (lucky_world\<lparr>clock_reads := 1, rand_draws := 2\<rparr>,
        thin_air_planet\<lparr>active_events :=
          [\<lparr>event = windfall, start_time = 5, duration = 0, effects_applied = False\<rparr>]\<rparr>)
   \<and> pressure thin_air_planet = 0.2
   \<and> min_pressure (requirements dust_storm) = Some 0.5
   \<and> \<not> check_event_requirements dust_storm thin_air_planet new_resource_manager
   \<and> (\<exists>new. thin_air_planet\<lparr>active_events :=
          [\<lparr>event = windfall, start_time = 5, duration = 0, effects_applied = False\<rparr>]\<rparr>
            = thin_air_planet\<lparr>active_events := active_events thin_air_planet @ new\<rparr>
        \<and> (\<forall>ae\<in>set new. min_pressure (requirements (event ae)) \<noteq> Some 0.5
              \<and> check_event_requirements (event ae) thin_air_planet new_resource_manager))"
proof -
  have wf1: "distinct (keys (event_templates sample_event_manager))"
    by (simp add: sample_event_manager_def keys_def)
  have wf2: "\<forall>(k, t)\<in>set (event_templates sample_event_manager). event_id t = k"
    by (simp add: sample_event_manager_def windfall_def dust_storm_def)
  have pr: "pressure thin_air_planet = 0.2"
    by (simp add: thin_air_planet_def new_planet_def Let_def)
  have mp: "min_pressure (requirements dust_storm) = Some 0.5" "requirements windfall = no_requirements"
    by (simp_all add: dust_storm_def windfall_def)
  have ids: "event_id windfall = ''windfall''" "event_id dust_storm = ''dust_storm''"
    "probability windfall = 0.05" "probability dust_storm = 0.3" "event_duration windfall = 0"
    by (simp_all add: dust_storm_def windfall_def)
  have ae0: "active_events thin_air_planet = []"
    by (simp add: thin_air_planet_def new_planet_def Let_def)
  have ok: "check_event_requirements windfall thin_air_planet new_resource_manager"
    by (simp add: check_event_requirements_def mp no_requirements_def)
  have run: "check_for_new_events sample_event_manager lucky_world thin_air_planet new_resource_manager
     = (lucky_world\<lparr>clock_reads := 1, rand_draws := 2\<rparr>,
        thin_air_planet\<lparr>active_events :=
          [\<lparr>event = windfall, start_time = 5, duration = 0, effects_applied = False\<rparr>]\<rparr>)"
    using ok low_pressure_fails [OF pr mp(1), of new_resource_manager] ae0
    by (simp add: check_for_new_events_def sample_event_manager_def values_of_def ids
        random_random_def lucky_world_def trigger_event_def new_active_event_def time_time_def
        lookup_def check_event_requirements_events)
  note T = new_events_only_when_allowed [OF wf1 wf2 run, of dust_storm]
  from T [THEN conjunct1] obtain new where
    n1: "thin_air_planet\<lparr>active_events :=
          [\<lparr>event = windfall, start_time = 5, duration = 0, effects_applied = False\<rparr>]\<rparr>
            = thin_air_planet\<lparr>active_events := active_events thin_air_planet @ new\<rparr>"
    and n3: "\<forall>ae\<in>set new. \<exists>i<length (event_templates sample_event_manager).
              event ae = snd (event_templates sample_event_manager ! i)
            \<and> rand lucky_world (rand_draws lucky_world + i) \<le> probability (event ae)
            \<and> check_event_requirements (event ae) thin_air_planet new_resource_manager
            \<and> event_id (event ae) \<notin> ids_on (active_events thin_air_planet)
            \<and> \<not> effects_applied ae"
    and n4: "pressure thin_air_planet = 0.2 \<longrightarrow>
            (\<forall>ae\<in>set new. min_pressure (requirements (event ae)) \<noteq> Some 0.5)"
    by (elim exE conjE)
  have c: "\<forall>ae\<in>set new. min_pressure (requirements (event ae)) \<noteq> Some 0.5
              \<and> check_event_requirements (event ae) thin_air_planet new_resource_manager"
    using n3 n4 pr by blast
  have nd: "\<not> check_event_requirements dust_storm thin_air_planet new_resource_manager"
    using T [THEN conjunct2, THEN conjunct2] pr mp(1) by blast
  show ?thesis using run pr mp(1) nd n1 c by blast
qed

end
